theory Spec2Isabelle
  imports Main "HOL-Library.Multiset"
begin

section \<open>The quiz server: data model\<close>

text \<open>
  The server (\<^verbatim>\<open>src/server/index.js\<close>) keeps its rooms in memory and reacts to socket
  events and to timers. JavaScript numbers are modelled as \<^typ>\<open>int\<close>: every number the
  server computes is an integer as long as the option scores of the catalog are, and the
  model is exact below \<open>2^53\<close>. Values sent by a client are not typed by the server, so a
  payload field is a \<open>js_value\<close>: one of the primitive values JSON can carry, or
  \<^verbatim>\<open>undefined\<close> for a field that is missing.
\<close>

datatype js_value = JUndefined | JNull | JBool bool | JNum int | JStr string

datatype power_type = PLUS | MINUS | SWAP_LOW | SWAP_HIGH | X2_SCORE | STUN | FINAL_X4

datatype phase = Lobby | Question | Results | Ended

record question =
  qid :: js_value
  qtext :: string
  options :: "string list"
  optionScores :: "int list option"  \<comment> \<open>\<open>None\<close>: the field is missing or is not an array\<close>
  bestIndex :: int

text \<open>The object \<^verbatim>\<open>{ ...q, isLast }\<close> that \<^verbatim>\<open>getQuestion\<close> returns.\<close>

record live_question =
  base :: question
  isLast :: bool

record answer =
  questionIndex :: int
  answerIndex :: js_value
  gained :: int

record power =
  ptype :: power_type
  used :: bool

record player =
  playerId :: js_value
  socketId :: string
  name :: js_value
  avatarId :: js_value
  score :: int
  stunnedUntil :: int
  answers :: "answer list"
  powers :: "power list"

record room =
  code :: string
  hostSocketId :: "string option"
  state :: phase
  currentQuestionIndex :: int
  questionEndsAt :: "int option"
  players :: "player list"
  timer :: "nat option"  \<comment> \<open>the handle \<^verbatim>\<open>setTimeout\<close> returned, or null\<close>

subsection \<open>Reading an array at a key sent by a client\<close>

text \<open>
  \<^verbatim>\<open>xs[k]\<close> converts \<open>k\<close> to a property key. A number that is an index in range, or a
  string that is the canonical decimal form of one, names an element; the string
  \<^verbatim>\<open>"length"\<close> names the array's length; \<^verbatim>\<open>"__proto__"\<close> names the prototype object
  of arrays; the name of another member that every array inherits (\<^verbatim>\<open>"map"\<close>,
  \<^verbatim>\<open>"constructor"\<close>, ...) names that member, a function; any other key names nothing
  and the read gives \<^verbatim>\<open>undefined\<close>.
\<close>

datatype property = Absent | Index nat | Length | Prototype | Inherited

definition is_digit :: "char \<Rightarrow> bool" where
  "is_digit c = (c \<in> set ''0123456789'')"

definition digit_value :: "char \<Rightarrow> nat" where
  "digit_value c = of_char c - 48"

text \<open>
  A canonical numeric string: decimal digits with no leading zero (\<^verbatim>\<open>"0"\<close> itself
  apart). Beyond \<open>2^32 - 2\<close> such a string is an ordinary key, not an index; no array of
  the server is that long, so the key then names nothing either way.
\<close>

definition canonical_index :: "string \<Rightarrow> nat option" where
  "canonical_index s =
     (if s = [] \<or> \<not> list_all is_digit s \<or> (hd s = CHR ''0'' \<and> length s > 1) then None
      else Some (foldl (\<lambda>acc c. acc * 10 + digit_value c) 0 s))"

text \<open>
  The members an array inherits from \<^verbatim>\<open>Array.prototype\<close> and \<^verbatim>\<open>Object.prototype\<close>
  (ECMAScript 2023). The list belongs to the runtime, not to the repository.
\<close>

definition inherited_names :: "string list" where
  "inherited_names =
     [''at'', ''concat'', ''constructor'', ''copyWithin'', ''entries'', ''every'', ''fill'',
      ''filter'', ''find'', ''findIndex'', ''findLast'', ''findLastIndex'', ''flat'',
      ''flatMap'', ''forEach'', ''includes'', ''indexOf'', ''join'', ''keys'', ''lastIndexOf'',
      ''map'', ''pop'', ''push'', ''reduce'', ''reduceRight'', ''reverse'', ''shift'', ''slice'',
      ''some'', ''sort'', ''splice'', ''toLocaleString'', ''toReversed'', ''toSorted'',
      ''toSpliced'', ''toString'', ''unshift'', ''values'', ''with'', ''hasOwnProperty'',
      ''isPrototypeOf'', ''propertyIsEnumerable'', ''valueOf'', ''__proto__'',
      ''__defineGetter__'', ''__defineSetter__'', ''__lookupGetter__'', ''__lookupSetter__'']"

text \<open>\<open>property_of n k\<close>: the property that key \<open>k\<close> names in an array of length \<open>n\<close>.\<close>

fun property_of :: "nat \<Rightarrow> js_value \<Rightarrow> property" where
  "property_of n (JNum i) = (if 0 \<le> i \<and> i < int n then Index (nat i) else Absent)"
| "property_of n (JStr s) =
     (case canonical_index s of
        Some i \<Rightarrow> if i < n then Index i else Absent
      | None \<Rightarrow>
          if s = ''length'' then Length
          else if s = ''__proto__'' then Prototype
          else if s \<in> set inherited_names then Inherited
          else Absent)"
| "property_of n JUndefined = Absent"
| "property_of n JNull = Absent"
| "property_of n (JBool b) = Absent"

section \<open>Questions and scoring\<close>

definition getQuestion :: "question list \<Rightarrow> int \<Rightarrow> live_question option" where
  "getQuestion questions idx =
     (if 0 \<le> idx \<and> idx < int (length questions)
      then Some \<lparr> base = questions ! nat idx,
                  isLast = (idx = int (length questions) - 1) \<rparr>
      else None)"

text \<open>
  What \<^verbatim>\<open>getEffectiveScore\<close> returns: a number, or a value that is not a number. An
  inherited member is a function, and four times a function is \<^verbatim>\<open>NaN\<close>. The prototype
  of arrays is an object; it is itself an empty array, so four times it is the number 0.
\<close>

datatype score_value = Num int | NonNumber

definition getEffectiveScore :: "live_question option \<Rightarrow> js_value \<Rightarrow> score_value" where
  "getEffectiveScore q ansIdx =
     (case q of
        None \<Rightarrow> Num 0
      | Some q \<Rightarrow>
          (case optionScores (base q) of
             None \<Rightarrow> Num 0
           | Some scores \<Rightarrow>
               (case property_of (length scores) ansIdx of
                  Absent \<Rightarrow> Num 0
                | Index i \<Rightarrow> Num (if isLast q then (scores ! i) * 4 else scores ! i)
                | Length \<Rightarrow>
                    Num (if isLast q then int (length scores) * 4 else int (length scores))
                | Prototype \<Rightarrow> if isLast q then Num 0 else NonNumber
                | Inherited \<Rightarrow> NonNumber)))"

text \<open>
  \<^verbatim>\<open>randomPower\<close>: \<open>r\<close> stands for the random draw; \<^verbatim>\<open>Math.floor(Math.random() * n)\<close>
  ranges over \<open>0..n-1\<close>, as \<open>r mod n\<close> does.
\<close>

definition randomPower :: "question list \<Rightarrow> int \<Rightarrow> nat \<Rightarrow> power_type" where
  "randomPower questions qIndex r =
     (let pool = [PLUS, MINUS, SWAP_LOW, SWAP_HIGH, X2_SCORE, STUN]
                 @ (if qIndex = int (length questions) - 1 then [FINAL_X4] else [])
      in pool ! (r mod length pool))"

section \<open>A room, its timers and what it emits\<close>

text \<open>
  Every handler works on one room, and the timers a room schedules close over that room.
  A \<open>world\<close> is a room together with its pending timers (handle, due time, callback), the
  next unused timer handle, and the events emitted to the room so far.
\<close>

datatype callback = Finalize | NextRound

record lb_entry =
  rank :: int
  lb_playerId :: js_value
  lb_name :: js_value
  lb_score :: score_value

datatype event =
    RoomUpdate string phase int "(js_value \<times> js_value \<times> js_value \<times> int \<times> int) list"
  | QuestionStart int live_question int
  | QuestionResults int int "lb_entry list" "(js_value \<times> power list) list"
  | PowerUsed "power_type option" "js_value \<times> js_value" "js_value \<times> js_value"
      "(js_value \<times> js_value \<times> int \<times> int) list"
  | GameEnded "lb_entry list"

record world =
  room :: room
  pending :: "(nat \<times> int \<times> callback) list"
  fresh :: nat
  outbox :: "event list"

definition emit :: "event \<Rightarrow> world \<Rightarrow> world" where
  "emit e w = w\<lparr>outbox := outbox w @ [e]\<rparr>"

definition sanitizeRoom :: "room \<Rightarrow> event" where
  "sanitizeRoom r =
     RoomUpdate (code r) (state r) (currentQuestionIndex r)
       (map (\<lambda>p. (playerId p, name p, avatarId p, score p, stunnedUntil p)) (players r))"

definition broadcastRoom :: "world \<Rightarrow> world" where
  "broadcastRoom w = emit (sanitizeRoom (room w)) w"

definition setTimeout :: "callback \<Rightarrow> int \<Rightarrow> int \<Rightarrow> world \<Rightarrow> nat \<times> world" where
  "setTimeout cb delay now w =
     (fresh w, w\<lparr>pending := pending w @ [(fresh w, now + delay, cb)], fresh := Suc (fresh w)\<rparr>)"

definition clearTimeout :: "nat \<Rightarrow> world \<Rightarrow> world" where
  "clearTimeout h w = w\<lparr>pending := filter (\<lambda>t. fst t \<noteq> h) (pending w)\<rparr>"

definition createRoom :: "string \<Rightarrow> room" where
  "createRoom c =
     \<lparr> code = c, hostSocketId = None, state = Lobby, currentQuestionIndex = 0,
       questionEndsAt = None, players = [], timer = None \<rparr>"

text \<open>
  The leaderboard that \<^verbatim>\<open>finalizeQuestion\<close> and \<^verbatim>\<open>endGame\<close> both build:
  \<^verbatim>\<open>[...room.players].sort((a, b) => b.score - a.score).map((p, idx) => ({rank: idx + 1, ...}))\<close>.
  It reads the \<^verbatim>\<open>playerId\<close>, the \<^verbatim>\<open>name\<close> and the \<^verbatim>\<open>score\<close> of a player, and nothing
  else. A \<open>scored_player\<close> holds these three, with the score as JavaScript may have it: a
  number, or a value that is not a number. The players of a room of this model have
  numbers (\<open>as_scored\<close>); the server can also hold a string or \<^verbatim>\<open>NaN\<close> as a score, once
  \<^verbatim>\<open>player.score += gained\<close> has met a \<^verbatim>\<open>gained\<close> that is not a number.
\<close>

record scored_player =
  sp_playerId :: js_value
  sp_name :: js_value
  sp_score :: score_value

definition as_scored :: "player \<Rightarrow> scored_player" where
  "as_scored p = \<lparr> sp_playerId = playerId p, sp_name = name p, sp_score = Num (score p) \<rparr>"

text \<open>
  The comparator \<^verbatim>\<open>(a, b) => b.score - a.score\<close> as \<^verbatim>\<open>Array.prototype.sort\<close> reads it.
  The difference is \<^verbatim>\<open>NaN\<close> when one of the scores is not a number (a string that is
  not numeric, or \<^verbatim>\<open>NaN\<close>), and the sort takes a result \<^verbatim>\<open>NaN\<close> as \<open>+0\<close>.
\<close>

definition compare_desc :: "scored_player \<Rightarrow> scored_player \<Rightarrow> int" where
  "compare_desc a b =
     (case (sp_score a, sp_score b) of
        (Num x, Num y) \<Rightarrow> y - x
      | _ \<Rightarrow> 0)"

text \<open>
  \<^verbatim>\<open>Array.prototype.sort\<close> with a comparator, as a stable insertion sort: an element goes
  before the first one it does not compare greater than, and elements that compare equal
  keep their order. With a consistent comparator every stable sort gives this result.
  With scores that are not numbers the comparator is not consistent and ECMAScript
  leaves the order to the implementation.
\<close>

fun insort_cmp :: "('a \<Rightarrow> 'a \<Rightarrow> int) \<Rightarrow> 'a \<Rightarrow> 'a list \<Rightarrow> 'a list" where
  "insort_cmp c x [] = [x]"
| "insort_cmp c x (y # ys) = (if c x y \<le> 0 then x # y # ys else y # insort_cmp c x ys)"

definition sort_cmp :: "('a \<Rightarrow> 'a \<Rightarrow> int) \<Rightarrow> 'a list \<Rightarrow> 'a list" where
  "sort_cmp c xs = foldr (insort_cmp c) xs []"

fun ranked :: "int \<Rightarrow> scored_player list \<Rightarrow> lb_entry list" where
  "ranked idx [] = []"
| "ranked idx (p # ps) =
     \<lparr> rank = idx + 1, lb_playerId = sp_playerId p, lb_name = sp_name p,
       lb_score = sp_score p \<rparr>
       # ranked (idx + 1) ps"

definition leaderboard :: "scored_player list \<Rightarrow> lb_entry list" where
  "leaderboard ps = ranked 0 (sort_cmp compare_desc ps)"

definition endGame :: "world \<Rightarrow> world" where
  "endGame w =
     (let w1 = room_update (\<lambda>r. r\<lparr>state := Ended\<rparr>) w;
          w2 = (case timer (room w1) of
                  None \<Rightarrow> w1
                | Some h \<Rightarrow> room_update (\<lambda>r. r\<lparr>timer := None\<rparr>) (clearTimeout h w1))
      in emit (GameEnded (leaderboard (map as_scored (players (room w2))))) w2)"

definition startQuestion :: "question list \<Rightarrow> int \<Rightarrow> world \<Rightarrow> world" where
  "startQuestion questions now w =
     (let w1 = (case timer (room w) of
                  None \<Rightarrow> w
                | Some h \<Rightarrow> room_update (\<lambda>r. r\<lparr>timer := None\<rparr>) (clearTimeout h w));
          qIndex = currentQuestionIndex (room w1)
      in case getQuestion questions qIndex of
           None \<Rightarrow> endGame w1
         | Some q \<Rightarrow>
             (let durationMs = 30000;
                  endsAt = now + durationMs;
                  w2 = room_update (\<lambda>r. r\<lparr>state := Question, questionEndsAt := Some endsAt\<rparr>) w1;
                  w3 = emit (QuestionStart qIndex q endsAt) w2;
                  (h, w4) = setTimeout Finalize (durationMs + 1000) now w3
              in room_update (\<lambda>r. r\<lparr>timer := Some h\<rparr>) w4))"

text \<open>The body of the \<^verbatim>\<open>forEach\<close> in \<^verbatim>\<open>finalizeQuestion\<close>, for one player and one draw.\<close>

definition awardPower :: "question list \<Rightarrow> int \<Rightarrow> live_question \<Rightarrow> nat \<Rightarrow> player \<Rightarrow> player" where
  "awardPower questions qIndex q r p =
     (case find (\<lambda>a. questionIndex a = qIndex) (answers p) of
        None \<Rightarrow> p
      | Some ans \<Rightarrow>
          if answerIndex ans = JNum (bestIndex (base q))
          then p\<lparr>powers := powers p @ [\<lparr> ptype = randomPower questions qIndex r, used = False \<rparr>]\<rparr>
          else p)"

text \<open>The \<^verbatim>\<open>forEach\<close> itself; \<open>rnd k\<close> is the draw made for the player at position \<open>k\<close>.\<close>

fun awardAll :: "(nat \<Rightarrow> player \<Rightarrow> player) \<Rightarrow> (nat \<Rightarrow> nat) \<Rightarrow> nat \<Rightarrow> player list \<Rightarrow> player list" where
  "awardAll f rnd k [] = []"
| "awardAll f rnd k (p # ps) = f (rnd k) p # awardAll f rnd (Suc k) ps"

text \<open>
  The delay of 4000 ms that \<^verbatim>\<open>finalizeQuestion\<close> schedules is not stored in
  \<^verbatim>\<open>room.timer\<close>: the handle \<^verbatim>\<open>setTimeout\<close> returns is dropped.
\<close>

definition finalizeQuestion :: "question list \<Rightarrow> int \<Rightarrow> (nat \<Rightarrow> nat) \<Rightarrow> world \<Rightarrow> world" where
  "finalizeQuestion questions now rnd w =
     (let w1 = room_update (\<lambda>r. r\<lparr>timer := None\<rparr>) w;
          qIndex = currentQuestionIndex (room w1)
      in case getQuestion questions qIndex of
           None \<Rightarrow> w1
         | Some q \<Rightarrow>
             (let ps = awardAll (awardPower questions qIndex q) rnd 0 (players (room w1));
                  w2 = room_update (\<lambda>r. r\<lparr>players := ps, state := Results\<rparr>) w1;
                  w3 = emit (QuestionResults qIndex (bestIndex (base q))
                               (leaderboard (map as_scored ps))
                               (map (\<lambda>p. (playerId p, powers p)) ps)) w2
              in snd (setTimeout NextRound 4000 now w3)))"

text \<open>The callback of that delay.\<close>

definition nextRound :: "question list \<Rightarrow> int \<Rightarrow> world \<Rightarrow> world" where
  "nextRound questions now w =
     (let w1 = room_update (\<lambda>r. r\<lparr>currentQuestionIndex := currentQuestionIndex r + 1\<rparr>) w
      in if currentQuestionIndex (room w1) \<ge> int (length questions) then endGame w1
         else broadcastRoom (startQuestion questions now w1))"

text \<open>
  A pending timer fires: it leaves the pending list and its callback runs. \<open>None\<close> when
  the handle is not pending or the timer is not due yet.
\<close>

definition fire :: "question list \<Rightarrow> int \<Rightarrow> (nat \<Rightarrow> nat) \<Rightarrow> nat \<Rightarrow> world \<Rightarrow> world option" where
  "fire questions now rnd h w =
     (case find (\<lambda>t. fst t = h) (pending w) of
        None \<Rightarrow> None
      | Some (_, due, cb) \<Rightarrow>
          if now < due then None
          else
            (let w1 = w\<lparr>pending := filter (\<lambda>t. fst t \<noteq> h) (pending w)\<rparr>
             in Some (case cb of
                        Finalize \<Rightarrow> finalizeQuestion questions now rnd w1
                      | NextRound \<Rightarrow> nextRound questions now w1)))"

section \<open>Powers\<close>

text \<open>
  Players are objects that the handlers mutate through references (\<^verbatim>\<open>actor\<close>,
  \<^verbatim>\<open>target\<close>, \<^verbatim>\<open>lowest\<close>, \<^verbatim>\<open>highest\<close>), and two references may be the same player. A
  reference is modelled by the player's position in \<^verbatim>\<open>room.players\<close>, and every write
  goes to the list.
\<close>

fun find_ref :: "('a \<Rightarrow> bool) \<Rightarrow> 'a list \<Rightarrow> nat option" where
  "find_ref P [] = None"
| "find_ref P (x # xs) =
     (if P x then Some 0 else (case find_ref P xs of None \<Rightarrow> None | Some i \<Rightarrow> Some (Suc i)))"

definition update_player :: "nat \<Rightarrow> (player \<Rightarrow> player) \<Rightarrow> room \<Rightarrow> room" where
  "update_player i f r = r\<lparr>players := (players r)[i := f (players r ! i)]\<rparr>"

text \<open>
  \<open>r\<close> stands for the random draw of \<^verbatim>\<open>PLUS\<close> and \<^verbatim>\<open>MINUS\<close>. The type is \<open>None\<close> when
  \<^verbatim>\<open>power.type\<close> is \<^verbatim>\<open>undefined\<close>, which takes the \<^verbatim>\<open>default\<close> branch.
\<close>

definition applyPower ::
  "question list \<Rightarrow> nat \<Rightarrow> room \<Rightarrow> power_type option \<Rightarrow> nat \<Rightarrow> nat \<Rightarrow> room" where
  "applyPower questions r rm ty actor target =
     (case ty of
        Some PLUS \<Rightarrow>
          (let delta = 1000 + int (r mod 6000)
           in update_player actor (\<lambda>p. p\<lparr>score := score p + delta\<rparr>) rm)
      | Some MINUS \<Rightarrow>
          (let delta = 1000 + int (r mod 6000)
           in update_player target (\<lambda>p. p\<lparr>score := max 0 (score p - delta)\<rparr>) rm)
      | Some SWAP_LOW \<Rightarrow>
          (if players rm = [] then rm
           else
             (let lowest = hd (sort_key (\<lambda>i. score (players rm ! i)) [0..<length (players rm)]);
                  tmp = score (players rm ! actor);
                  rm1 = update_player actor (\<lambda>p. p\<lparr>score := score (players rm ! lowest)\<rparr>) rm
              in update_player lowest (\<lambda>p. p\<lparr>score := tmp\<rparr>) rm1))
      | Some SWAP_HIGH \<Rightarrow>
          (if players rm = [] then rm
           else
             (let highest = hd (sort_key (\<lambda>i. - score (players rm ! i)) [0..<length (players rm)]);
                  tmp = score (players rm ! actor);
                  rm1 = update_player actor (\<lambda>p. p\<lparr>score := score (players rm ! highest)\<rparr>) rm
              in update_player highest (\<lambda>p. p\<lparr>score := tmp\<rparr>) rm1))
      | Some X2_SCORE \<Rightarrow> update_player actor (\<lambda>p. p\<lparr>score := score p * 2\<rparr>) rm
      | Some STUN \<Rightarrow>
          (let qIndex = currentQuestionIndex rm
           in update_player target (\<lambda>p. p\<lparr>stunnedUntil := qIndex + 1\<rparr>) rm)
      | Some FINAL_X4 \<Rightarrow>
          (let qIndex = currentQuestionIndex rm
           in case getQuestion questions qIndex of
                None \<Rightarrow> rm
              | Some q \<Rightarrow>
                  if \<not> isLast q then rm
                  else update_player actor (\<lambda>p. p\<lparr>score := score p * 4\<rparr>) rm)
      | None \<Rightarrow> rm)"

section \<open>The socket handlers\<close>

text \<open>
  Each handler first looks its room up with \<^verbatim>\<open>rooms.get\<close> and replies
  \<^verbatim>\<open>Room not found\<close> when there is none. The definitions below are the rest of each
  handler, on the room found. A handler returns what it passes to the acknowledgement
  callback and the world it leaves.

  \<open>Unmodelled\<close> marks the one kind of request this model does not follow: a key that
  names an inherited member of an array. The server accepts such a request. With
  \<^verbatim>\<open>answerIndex\<close> \<^verbatim>\<open>"map"\<close> it appends the answer and \<^verbatim>\<open>player.score += gained\<close> turns the
  score into a string (a number plus a function) or into \<^verbatim>\<open>NaN\<close>; with \<^verbatim>\<open>powerIndex\<close>
  \<^verbatim>\<open>"map"\<close> it emits the event and \<^verbatim>\<open>power.used = true\<close> writes to an object shared by
  all arrays of the process. A room of this model holds numbers as scores, so the model
  stops there and returns the world as it was. What the leaderboard does with a score
  that is not a number is modelled apart, in \<open>leaderboard\<close>.
\<close>

datatype error =
    AvatarTaken | TimeIsUp | PlayerNotFound | Stunned | AlreadyAnswered | NoQuestion
  | ActorNotFound | PowerNotAvailable

datatype ack = Error error | Joined string js_value | Gained int | PowerOk | Unmodelled

definition on_createRoom :: "string \<Rightarrow> string \<Rightarrow> world" where
  "on_createRoom c sock =
     broadcastRoom \<lparr> room = (createRoom c)\<lparr>hostSocketId := Some sock\<rparr>,
                     pending = [], fresh = 0, outbox = [] \<rparr>"

definition on_join :: "string \<Rightarrow> js_value \<Rightarrow> js_value \<Rightarrow> js_value \<Rightarrow> world \<Rightarrow> ack \<times> world" where
  "on_join sock nm av pid w =
     (case find_ref (\<lambda>p. playerId p = pid) (players (room w)) of
        Some i \<Rightarrow>
          (let w1 = room_update (update_player i (\<lambda>p. p\<lparr>socketId := sock\<rparr>)) w
           in (Joined (code (room w1)) (playerId (players (room w1) ! i)), broadcastRoom w1))
      | None \<Rightarrow>
          if list_ex (\<lambda>p. avatarId p = av) (players (room w)) then (Error AvatarTaken, w)
          else
            (let player = \<lparr> playerId = pid, socketId = sock, name = nm, avatarId = av, score = 0,
                             stunnedUntil = - 1, answers = [], powers = [] \<rparr>;
                 w1 = room_update (\<lambda>r. r\<lparr>players := players r @ [player]\<rparr>) w
             in (Joined (code (room w1)) (playerId player), broadcastRoom w1)))"

definition on_startGame :: "question list \<Rightarrow> int \<Rightarrow> world \<Rightarrow> world" where
  "on_startGame questions now w =
     (let w1 = room_update (\<lambda>r. r\<lparr>currentQuestionIndex := 0,
                 players := map (\<lambda>p. p\<lparr>score := 0, stunnedUntil := - 1, answers := [], powers := []\<rparr>)
                              (players r)\<rparr>) w
      in broadcastRoom (startQuestion questions now w1))"

text \<open>\<^verbatim>\<open>!room.questionEndsAt\<close> holds for \<^verbatim>\<open>null\<close> and for the number 0.\<close>

definition on_submitAnswer ::
  "question list \<Rightarrow> int \<Rightarrow> js_value \<Rightarrow> js_value \<Rightarrow> world \<Rightarrow> ack \<times> world" where
  "on_submitAnswer questions now pid ansIdx w =
     (if (case questionEndsAt (room w) of None \<Rightarrow> True | Some e \<Rightarrow> e = 0 \<or> now > e)
      then (Error TimeIsUp, w)
      else
        (case find_ref (\<lambda>p. playerId p = pid) (players (room w)) of
           None \<Rightarrow> (Error PlayerNotFound, w)
         | Some i \<Rightarrow>
             (let player = players (room w) ! i;
                  qIndex = currentQuestionIndex (room w)
              in if stunnedUntil player > qIndex then (Error Stunned, w)
                 else if list_ex (\<lambda>a. questionIndex a = qIndex) (answers player)
                 then (Error AlreadyAnswered, w)
                 else
                   (case getQuestion questions qIndex of
                      None \<Rightarrow> (Error NoQuestion, w)
                    | Some q \<Rightarrow>
                        (case getEffectiveScore (Some q) ansIdx of
                           NonNumber \<Rightarrow> (Unmodelled, w)
                         | Num g \<Rightarrow>
                             (let w1 = room_update (update_player i (\<lambda>p.
                                         p\<lparr>answers := answers p @
                                              [\<lparr> questionIndex = qIndex, answerIndex = ansIdx,
                                                 gained = g \<rparr>],
                                           score := score p + g\<rparr>)) w
                              in (Gained g, broadcastRoom w1)))))))"

definition power_used_event :: "power_type option \<Rightarrow> nat \<Rightarrow> nat \<Rightarrow> room \<Rightarrow> event" where
  "power_used_event ty actor target rm =
     PowerUsed ty
       (playerId (players rm ! actor), name (players rm ! actor))
       (playerId (players rm ! target), name (players rm ! target))
       (map (\<lambda>p. (playerId p, name p, score p, stunnedUntil p)) (players rm))"

text \<open>
  \<^verbatim>\<open>actor.powers[powerIndex]\<close> at the key \<^verbatim>\<open>"length"\<close> is the number of powers: it is
  truthy unless the list is empty, its \<^verbatim>\<open>used\<close> and \<^verbatim>\<open>type\<close> are \<^verbatim>\<open>undefined\<close>, and
  \<^verbatim>\<open>power.used = true\<close> on a number has no effect (the file is not in strict mode).
\<close>

definition on_usePower ::
  "question list \<Rightarrow> nat \<Rightarrow> js_value \<Rightarrow> js_value \<Rightarrow> js_value \<Rightarrow> world \<Rightarrow> ack \<times> world" where
  "on_usePower questions r pid tid pwIdx w =
     (case find_ref (\<lambda>p. playerId p = pid) (players (room w)) of
        None \<Rightarrow> (Error ActorNotFound, w)
      | Some actor \<Rightarrow>
          (let target = (case find_ref (\<lambda>p. playerId p = tid) (players (room w)) of
                           None \<Rightarrow> actor
                         | Some t \<Rightarrow> t);
               slots = powers (players (room w) ! actor)
           in case property_of (length slots) pwIdx of
                Absent \<Rightarrow> (Error PowerNotAvailable, w)
              | Index i \<Rightarrow>
                  if used (slots ! i) then (Error PowerNotAvailable, w)
                  else
                    (let ty = ptype (slots ! i);
                         w1 = room_update (\<lambda>rm. applyPower questions r rm (Some ty) actor target) w;
                         w2 = room_update (update_player actor (\<lambda>p.
                                p\<lparr>powers := (powers p)[i := (powers p ! i)\<lparr>used := True\<rparr>]\<rparr>)) w1;
                         w3 = emit (power_used_event (Some ty) actor target (room w2)) w2
                     in (PowerOk, broadcastRoom w3))
              | Length \<Rightarrow>
                  if slots = [] then (Error PowerNotAvailable, w)
                  else
                    (let w1 = room_update (\<lambda>rm. applyPower questions r rm None actor target) w;
                         w3 = emit (power_used_event None actor target (room w1)) w1
                     in (PowerOk, broadcastRoom w3))
              | Prototype \<Rightarrow> (Unmodelled, w)
              | Inherited \<Rightarrow> (Unmodelled, w)))"

section \<open>Runs of a room\<close>

text \<open>
  What can happen to a room after its creation: a request of a client, with the time and
  the random draws the handler meets, or a pending timer that fires. A run is a list of
  such actions, each applied to the world the one before left. A run ends with \<open>None\<close>
  when it fires a timer that is not pending or not due, or when a request is
  \<^const>\<open>Unmodelled\<close>: the runs followed are those in which no request names an inherited
  member of an array.
\<close>

datatype action =
    Join string js_value js_value js_value
  | StartGame int
  | SubmitAnswer int js_value js_value
  | UsePower nat js_value js_value js_value
  | Fire int "nat \<Rightarrow> nat" nat

fun apply_action :: "question list \<Rightarrow> action \<Rightarrow> world \<Rightarrow> world option" where
  "apply_action qs (Join sock nm av pid) w = Some (snd (on_join sock nm av pid w))"
| "apply_action qs (StartGame now) w = Some (on_startGame qs now w)"
| "apply_action qs (SubmitAnswer now pid ansIdx) w =
     (case on_submitAnswer qs now pid ansIdx w of
        (Unmodelled, _) \<Rightarrow> None
      | (_, w') \<Rightarrow> Some w')"
| "apply_action qs (UsePower r pid tid pwIdx) w =
     (case on_usePower qs r pid tid pwIdx w of
        (Unmodelled, _) \<Rightarrow> None
      | (_, w') \<Rightarrow> Some w')"
| "apply_action qs (Fire now rnd h) w = fire qs now rnd h w"

fun run :: "question list \<Rightarrow> world \<Rightarrow> action list \<Rightarrow> world option" where
  "run qs w [] = Some w"
| "run qs w (a # as) = (case apply_action qs a w of None \<Rightarrow> None | Some w' \<Rightarrow> run qs w' as)"

section \<open>An invariant of the answers\<close>

text \<open>
  The players of a room have different identifiers, and no player holds two answers for
  one question index.
\<close>

definition answers_ok :: "world \<Rightarrow> bool" where
  "answers_ok w = (distinct (map playerId (players (room w)))
     \<and> list_all (\<lambda>p. distinct (map questionIndex (answers p))) (players (room w)))"

section \<open>Example data\<close>

text \<open>
  A catalog of two questions, the second one the last: option scores 100 and 500 with
  best option 1, then 200 and 900 with best option 0.
\<close>

definition scenario_questions :: "question list" where
  "scenario_questions =
     [\<lparr> qid = JNum 1, qtext = ''Q1'', options = [''a'', ''b''],
        optionScores = Some [100, 500], bestIndex = 1 \<rparr>,
      \<lparr> qid = JNum 2, qtext = ''Q2'', options = [''a'', ''b''],
        optionScores = Some [200, 900], bestIndex = 0 \<rparr>]"

text \<open>
  A catalog of three questions, and a game on it: three players join, the host starts
  the game, each player answers the first question (only \<open>B\<close> picks the best option), the
  question is finalized with the draw that gives \<open>B\<close> a \<^const>\<open>STUN\<close> power, and the second
  question starts. \<open>scenario_world\<close> is the room at that point.
\<close>


text \<open>The random source in which every draw is \<open>r\<close>.\<close>

definition draw :: "nat \<Rightarrow> nat \<Rightarrow> nat" where
  "draw r k = r"

definition three_questions :: "question list" where
  "three_questions =
     scenario_questions
     @ [\<lparr> qid = JNum 3, qtext = ''Q3'', options = [''a'', ''b''],
          optionScores = Some [300, 700], bestIndex = 1 \<rparr>]"

definition scenario_actions :: "action list" where
  "scenario_actions =
     [Join ''sA'' (JStr ''Ann'') (JStr ''cat'') (JStr ''A''),
      Join ''sB'' (JStr ''Bob'') (JStr ''dog'') (JStr ''B''),
      Join ''sC'' (JStr ''Cy'') (JStr ''owl'') (JStr ''C''),
      StartGame 0,
      SubmitAnswer 5000 (JStr ''A'') (JNum 0),
      SubmitAnswer 6000 (JStr ''B'') (JNum 1),
      SubmitAnswer 7000 (JStr ''C'') (JNum 0),
      Fire 31000 (draw 5) 0,
      Fire 35000 (draw 0) 1]"

definition scenario_world :: world where
  "scenario_world = the (run three_questions (on_createRoom ''ABCD'' ''host'') scenario_actions)"

text \<open>
  From there: \<open>B\<close> uses its power on \<open>A\<close> while the second question (index 1) is current;
  then that question is finalized and the third one starts; then the third question is
  finalized and the game ends.
\<close>

definition stun_world :: world where
  "stun_world =
     the (run three_questions scenario_world [UsePower 0 (JStr ''B'') (JStr ''A'') (JNum 0)])"

definition third_question_world :: world where
  "third_question_world =
     the (run three_questions stun_world [Fire 66000 (draw 0) 2, Fire 70000 (draw 0) 3])"

definition ended_world :: world where
  "ended_world =
     the (run three_questions third_question_world
            [Fire 101000 (draw 0) 4, Fire 105000 (draw 0) 5])"

text \<open>
  From \<open>scenario_world\<close> again: \<open>C\<close> answers the second question with option 1, for 900
  points. \<open>scored_after_map\<close> is what the leaderboard reads of the players the server
  holds once \<open>B\<close> has then submitted the \<^verbatim>\<open>answerIndex\<close> \<^verbatim>\<open>"map"\<close>: the score of \<open>B\<close> is
  a string and no number.
\<close>

definition ahead_world :: world where
  "ahead_world =
     the (run three_questions scenario_world [SubmitAnswer 40000 (JStr ''C'') (JNum 1)])"

definition scored_after_map :: "scored_player list" where
  "scored_after_map =
     [\<lparr> sp_playerId = JStr ''A'', sp_name = JStr ''Ann'', sp_score = Num 100 \<rparr>,
      \<lparr> sp_playerId = JStr ''B'', sp_name = JStr ''Bob'', sp_score = NonNumber \<rparr>,
      \<lparr> sp_playerId = JStr ''C'', sp_name = JStr ''Cy'', sp_score = Num 1000 \<rparr>]"

text \<open>
  Another game on the same catalog, with no player: the host starts the game at 0, the
  first question is finalized at 31000, the host starts the game again at 32000, during
  the results, and at 35000 the delay of the first round fires.
\<close>

definition results_world :: world where
  "results_world =
     the (run three_questions (on_createRoom ''ABCD'' ''host'')
            [StartGame 0, Fire 31000 (draw 0) 0])"

definition restarted_world :: world where
  "restarted_world = the (run three_questions results_world [StartGame 32000])"

definition skipped_world :: world where
  "skipped_world = the (run three_questions restarted_world [Fire 35000 (draw 0) 1])"

section \<open>Scoring\<close>





section \<open>The leaderboard\<close>

lemma rank_ranked: "map rank (ranked k ps) = [k + 1..k + int (length ps)]"
proof (induction ps arbitrary: k)
  case Nil
  show ?case by simp
next
  case (Cons p ps)
  have "map rank (ranked k (p # ps)) = (k + 1) # map rank (ranked (k + 1) ps)"
    by simp
  also have "\<dots> = (k + 1) # [k + 1 + 1..k + 1 + int (length ps)]"
    by (simp only: Cons)
  also have "\<dots> = [k + 1..k + 1 + int (length ps)]"
    by (rule upto_rec1[symmetric]) simp
  finally have "map rank (ranked k (p # ps)) = [k + 1..k + 1 + int (length ps)]" .
  moreover have "k + 1 + int (length ps) = k + int (length (p # ps))"
    by simp
  ultimately show ?case
    by (simp only:)
qed

lemma score_ranked: "map lb_score (ranked k ps) = map sp_score ps"
  by (induction ps arbitrary: k) auto

lemma unranked_ranked:
  "map (\<lambda>e. (lb_playerId e, lb_name e, lb_score e)) (ranked k ps) =
   map (\<lambda>r. (sp_playerId r, sp_name r, sp_score r)) ps"
  by (induction ps arbitrary: k) auto

lemma filter_ranked:
  "map (\<lambda>e. (lb_playerId e, lb_name e, lb_score e)) (filter (\<lambda>e. lb_score e = s) (ranked k ps)) =
   map (\<lambda>r. (sp_playerId r, sp_name r, sp_score r)) (filter (\<lambda>r. sp_score r = s) ps)"
  by (induction ps arbitrary: k) auto

lemma mset_insort_cmp: "mset (insort_cmp c x xs) = add_mset x (mset xs)"
  by (induction xs) auto

lemma mset_sort_cmp: "mset (sort_cmp c xs) = mset xs"
  by (induction xs) (auto simp: sort_cmp_def mset_insort_cmp)

lemma length_sort_cmp: "length (sort_cmp c xs) = length xs"
  using mset_sort_cmp[of c xs] by (metis size_mset)

text \<open>On scores that are numbers the sort of the leaderboard is the stable sort by descending score.\<close>

lemma insort_cmp_numeric:
  "insort_cmp compare_desc (as_scored p) (map as_scored ps) =
   map as_scored (insort_key (\<lambda>p. - score p) p ps)"
  by (induction ps) (auto simp: compare_desc_def as_scored_def)

lemma sort_cmp_numeric:
  "sort_cmp compare_desc (map as_scored ps) = map as_scored (sort_key (\<lambda>p. - score p) ps)"
proof (induction ps)
  case Nil
  show ?case by (simp add: sort_cmp_def)
next
  case (Cons p ps)
  have "sort_cmp compare_desc (map as_scored (p # ps)) =
        insort_cmp compare_desc (as_scored p) (sort_cmp compare_desc (map as_scored ps))"
    by (simp add: sort_cmp_def)
  also have "\<dots> = insort_cmp compare_desc (as_scored p)
                     (map as_scored (sort_key (\<lambda>p. - score p) ps))"
    by (simp only: Cons)
  also have "\<dots> = map as_scored (insort_key (\<lambda>p. - score p) p (sort_key (\<lambda>p. - score p) ps))"
    by (rule insort_cmp_numeric)
  finally show ?case by simp
qed

lemma sorted_desc_sort_key:
  "sorted_wrt (\<lambda>a b. b \<le> a) (map score (sort_key (\<lambda>p. - score p) (ps :: player list)))"
proof -
  have "sorted (map (\<lambda>p. - score p) (sort_key (\<lambda>p. - score p) ps))"
    by (rule sorted_sort_key)
  then show ?thesis
    by (simp add: sorted_wrt_map)
qed

lemma stable_desc_sort_key:
  "filter (\<lambda>p. score p = s) (sort_key (\<lambda>p. - score p) (ps :: player list)) = filter (\<lambda>p. score p = s) ps"
  using sort_key_stable[of "\<lambda>p. - score p" "- s" ps] by simp

lemma leaderboard_numeric_scores:
  "map lb_score (leaderboard (map as_scored ps)) =
   map Num (map score (sort_key (\<lambda>p. - score p) ps))"
  by (simp add: leaderboard_def score_ranked sort_cmp_numeric as_scored_def comp_def)

lemma leaderboard_numeric_stable:
  "map (\<lambda>e. (lb_playerId e, lb_name e, lb_score e))
     (filter (\<lambda>e. lb_score e = Num s) (leaderboard (map as_scored ps))) =
   map (\<lambda>p. (playerId p, name p, Num (score p))) (filter (\<lambda>p. score p = s) ps)"
proof -
  have "map (\<lambda>e. (lb_playerId e, lb_name e, lb_score e))
          (filter (\<lambda>e. lb_score e = Num s) (leaderboard (map as_scored ps))) =
        map (\<lambda>r. (sp_playerId r, sp_name r, sp_score r))
          (filter (\<lambda>r. sp_score r = Num s) (map as_scored (sort_key (\<lambda>p. - score p) ps)))"
    by (simp only: leaderboard_def filter_ranked sort_cmp_numeric)
  also have "\<dots> = map (\<lambda>p. (playerId p, name p, Num (score p)))
                     (filter (\<lambda>p. score p = s) (sort_key (\<lambda>p. - score p) ps))"
    by (simp add: filter_map comp_def as_scored_def)
  finally show ?thesis
    by (simp only: stable_desc_sort_key)
qed

lemma players_endGame: "players (room (endGame w)) = players (room w)"
  by (simp add: endGame_def emit_def clearTimeout_def Let_def split: option.splits)

lemma last_outbox_endGame:
  "last (outbox (endGame w)) = GameEnded (leaderboard (map as_scored (players (room w))))"
  by (simp add: endGame_def emit_def clearTimeout_def Let_def split: option.splits)

lemma score_awardPower: "score (awardPower qs qi q r p) = score p"
  by (simp add: awardPower_def split: option.splits)

lemma score_awardAll: "map score (awardAll (awardPower qs qi q) rnd k ps) = map score ps"
  by (induction ps arbitrary: k) (auto simp: score_awardPower)

lemma finalizeQuestion_results:
  assumes "getQuestion qs (currentQuestionIndex (room w)) = Some q"
  shows "last (outbox (finalizeQuestion qs now rnd w)) =
           QuestionResults (currentQuestionIndex (room w)) (bestIndex (base q))
             (leaderboard (map as_scored (players (room (finalizeQuestion qs now rnd w)))))
             (map (\<lambda>p. (playerId p, powers p)) (players (room (finalizeQuestion qs now rnd w))))"
    and "map score (players (room (finalizeQuestion qs now rnd w))) = map score (players (room w))"
  using assms
  by (simp_all add: finalizeQuestion_def emit_def setTimeout_def Let_def score_awardAll)

text \<open>
  C5, as the code has it. The leaderboard of \<open>N\<close> players carries the ranks \<open>1..N\<close> in
  this order and lists exactly these players, whatever their scores are. When every
  score is a number, as in every room of this model, its scores descend and the players
  of one score keep their join order. It is what \<^verbatim>\<open>endGame\<close> emits last, and what
  \<^verbatim>\<open>finalizeQuestion\<close> emits last when the current question exists.
\<close>

theorem leaderboard_ranks:
  "map rank (leaderboard rows) = [1..int (length rows)]
   \<and> mset (map (\<lambda>e. (lb_playerId e, lb_name e, lb_score e)) (leaderboard rows)) =
       mset (map (\<lambda>r. (sp_playerId r, sp_name r, sp_score r)) rows)
   \<and> (\<exists>ss. map lb_score (leaderboard (map as_scored ps)) = map Num ss
          \<and> sorted_wrt (\<lambda>a b. b \<le> a) ss)
   \<and> map (\<lambda>e. (lb_playerId e, lb_name e, lb_score e))
         (filter (\<lambda>e. lb_score e = Num s) (leaderboard (map as_scored ps))) =
       map (\<lambda>p. (playerId p, name p, Num (score p))) (filter (\<lambda>p. score p = s) ps)
   \<and> last (outbox (endGame w)) = GameEnded (leaderboard (map as_scored (players (room w))))
   \<and> (getQuestion qs (currentQuestionIndex (room w)) = Some q \<longrightarrow>
        last (outbox (finalizeQuestion qs now rnd w)) =
          QuestionResults (currentQuestionIndex (room w)) (bestIndex (base q))
            (leaderboard (map as_scored (players (room (finalizeQuestion qs now rnd w)))))
            (map (\<lambda>p. (playerId p, powers p)) (players (room (finalizeQuestion qs now rnd w)))))"
proof (intro conjI impI)
  show "map rank (leaderboard rows) = [1..int (length rows)]"
    using rank_ranked[of 0 "sort_cmp compare_desc rows"]
    by (simp add: leaderboard_def length_sort_cmp)
  show "mset (map (\<lambda>e. (lb_playerId e, lb_name e, lb_score e)) (leaderboard rows)) =
       mset (map (\<lambda>r. (sp_playerId r, sp_name r, sp_score r)) rows)"
    by (simp add: leaderboard_def unranked_ranked mset_sort_cmp)
  show "\<exists>ss. map lb_score (leaderboard (map as_scored ps)) = map Num ss
          \<and> sorted_wrt (\<lambda>a b. b \<le> a) ss"
    using leaderboard_numeric_scores[of ps] sorted_desc_sort_key[of ps] by blast
  show "map (\<lambda>e. (lb_playerId e, lb_name e, lb_score e))
         (filter (\<lambda>e. lb_score e = Num s) (leaderboard (map as_scored ps))) =
       map (\<lambda>p. (playerId p, name p, Num (score p))) (filter (\<lambda>p. score p = s) ps)"
    by (rule leaderboard_numeric_stable)
  show "last (outbox (endGame w)) = GameEnded (leaderboard (map as_scored (players (room w))))"
    by (rule last_outbox_endGame)
next
  assume "getQuestion qs (currentQuestionIndex (room w)) = Some q"
  then show "last (outbox (finalizeQuestion qs now rnd w)) =
          QuestionResults (currentQuestionIndex (room w)) (bestIndex (base q))
            (leaderboard (map as_scored (players (room (finalizeQuestion qs now rnd w)))))
            (map (\<lambda>p. (playerId p, powers p)) (players (room (finalizeQuestion qs now rnd w))))"
    by (rule finalizeQuestion_results(1))
qed

theorem leaderboard_ranks_witness:
  "map rank (leaderboard scored_after_map) = [1..int (length scored_after_map)]
   \<and> map lb_playerId (leaderboard (map as_scored (players (room scenario_world)))) =
       [JStr ''B'', JStr ''A'', JStr ''C'']
   \<and> map lb_score (leaderboard (map as_scored (players (room scenario_world)))) =
       [Num 500, Num 100, Num 100]
   \<and> map (\<lambda>e. (lb_playerId e, lb_name e, lb_score e))
         (filter (\<lambda>e. lb_score e = Num 100)
            (leaderboard (map as_scored (players (room scenario_world))))) =
       [(JStr ''A'', JStr ''Ann'', Num 100), (JStr ''C'', JStr ''Cy'', Num 100)]
   \<and> last (outbox (finalizeQuestion three_questions 66000 (draw 0) scenario_world)) =
          QuestionResults 1 0
            (leaderboard (map as_scored
               (players (room (finalizeQuestion three_questions 66000 (draw 0) scenario_world)))))
            (map (\<lambda>p. (playerId p, powers p))
               (players (room (finalizeQuestion three_questions 66000 (draw 0) scenario_world))))"
proof -
  have q: "getQuestion three_questions (currentQuestionIndex (room scenario_world)) =
             Some \<lparr> base = three_questions ! 1, isLast = False \<rparr>"
    by code_simp
  have b: "bestIndex (base \<lparr> base = three_questions ! 1, isLast = False \<rparr>) = 0"
    "currentQuestionIndex (room scenario_world) = 1"
    by code_simp+
  have ids: "map lb_playerId (leaderboard (map as_scored (players (room scenario_world)))) =
       [JStr ''B'', JStr ''A'', JStr ''C'']"
    "map lb_score (leaderboard (map as_scored (players (room scenario_world)))) =
       [Num 500, Num 100, Num 100]"
    by code_simp+
  have f: "map (\<lambda>p. (playerId p, name p, Num (score p)))
             (filter (\<lambda>p. score p = 100) (players (room scenario_world))) =
       [(JStr ''A'', JStr ''Ann'', Num 100), (JStr ''C'', JStr ''Cy'', Num 100)]"
    by code_simp
  from leaderboard_ranks [of scored_after_map "players (room scenario_world)" 100 scenario_world
      three_questions "\<lparr> base = three_questions ! 1, isLast = False \<rparr>" 66000 "draw 0"] q b ids f
  show ?thesis by simp
qed

text \<open>
  The claim of C5 fails in a room that holds a score that is not a number. In the
  scenario \<open>C\<close> answers the second question with the option of 900 points and is ahead
  with 1000. Then \<open>B\<close> submits the \<^verbatim>\<open>answerIndex\<close> \<^verbatim>\<open>"map"\<close>: \<^verbatim>\<open>getEffectiveScore\<close> returns
  the function \<^verbatim>\<open>Array.prototype.map\<close>, the handler accepts, and \<^verbatim>\<open>player.score += gained\<close>
  makes \<open>B\<close>'s score the string that starts with \<^verbatim>\<open>500function\<close>. For every pair with \<open>B\<close>
  the comparator is \<^verbatim>\<open>NaN\<close>, which the sort takes as \<open>+0\<close>: \<open>A\<close> is compared with \<open>B\<close> and
  \<open>B\<close> with \<open>C\<close>, never \<open>A\<close> with \<open>C\<close>, so the sort moves nothing (the insertion sort of
  the model, and the sort of V8, which finds the three players already in one run). The
  leaderboard ranks \<open>A\<close> with 100 points first and \<open>C\<close> with 1000 points third.
\<close>

theorem leaderboard_not_descending:
  "run three_questions scenario_world [SubmitAnswer 40000 (JStr ''C'') (JNum 1)] = Some ahead_world
   \<and> map score (players (room ahead_world)) = [100, 500, 1000]
   \<and> getEffectiveScore (getQuestion three_questions (currentQuestionIndex (room ahead_world)))
        (JStr ''map'') = NonNumber
   \<and> fst (on_submitAnswer three_questions 41000 (JStr ''B'') (JStr ''map'') ahead_world) = Unmodelled
   \<and> map sp_score scored_after_map = [Num 100, NonNumber, Num 1000]
   \<and> map lb_playerId (leaderboard scored_after_map) = [JStr ''A'', JStr ''B'', JStr ''C'']
   \<and> map lb_score (leaderboard scored_after_map) = [Num 100, NonNumber, Num 1000]
   \<and> map rank (leaderboard scored_after_map) = [1, 2, 3]"
  by code_simp

section \<open>Finding a player\<close>

lemma find_ref_Some:
  "find_ref P xs = Some i \<Longrightarrow> i < length xs \<and> P (xs ! i)"
  by (induction xs arbitrary: i) (auto split: if_splits option.splits)

lemma find_ref_None: "find_ref P xs = None \<Longrightarrow> \<not> list_ex P xs"
  by (induction xs) (auto split: if_splits option.splits)

lemma map_frame_update:
  "i < length ps \<Longrightarrow> g (f (ps ! i)) = g (ps ! i) \<Longrightarrow> map g (ps[i := f (ps ! i)]) = map g ps"
  by (simp add: map_update list_update_same_conv)

section \<open>The deadline of a question\<close>

lemma questionEndsAt_finalizeQuestion:
  "questionEndsAt (room (finalizeQuestion qs now rnd w)) = questionEndsAt (room w)"
  by (simp add: finalizeQuestion_def emit_def setTimeout_def Let_def split: option.splits)

text \<open>
  C2, as the code has it. A submission strictly after the deadline of the room, or in a
  room that has no deadline yet, is answered with \<^verbatim>\<open>Time is up\<close> and leaves the room as
  it was: no score and no answer list changes. This holds in every phase, also once
  \<^verbatim>\<open>finalizeQuestion\<close> has run, which keeps the deadline. A submission exactly at the
  deadline is not refused for its time: the test is \<^verbatim>\<open>now > room.questionEndsAt\<close>.
\<close>

theorem submitAnswer_after_deadline:
  "(questionEndsAt (room w) = Some e \<longrightarrow> e < now \<longrightarrow>
      on_submitAnswer qs now pid a w = (Error TimeIsUp, w))
   \<and> (questionEndsAt (room w) = None \<longrightarrow> on_submitAnswer qs now pid a w = (Error TimeIsUp, w))
   \<and> (questionEndsAt (room w) = Some e \<longrightarrow> e < now \<longrightarrow>
        on_submitAnswer qs now pid a (finalizeQuestion qs t rnd w) =
          (Error TimeIsUp, finalizeQuestion qs t rnd w))
   \<and> (questionEndsAt (room w) = Some e \<longrightarrow> e \<noteq> 0 \<longrightarrow> now \<le> e \<longrightarrow>
        fst (on_submitAnswer qs now pid a w) \<noteq> Error TimeIsUp)"
proof (intro conjI impI)
  assume "questionEndsAt (room w) = Some e" "e < now"
  then show "on_submitAnswer qs now pid a w = (Error TimeIsUp, w)"
    by (simp add: on_submitAnswer_def)
next
  assume "questionEndsAt (room w) = None"
  then show "on_submitAnswer qs now pid a w = (Error TimeIsUp, w)"
    by (simp add: on_submitAnswer_def)
next
  assume "questionEndsAt (room w) = Some e" "e < now"
  then show "on_submitAnswer qs now pid a (finalizeQuestion qs t rnd w) =
          (Error TimeIsUp, finalizeQuestion qs t rnd w)"
    by (simp add: on_submitAnswer_def questionEndsAt_finalizeQuestion)
next
  assume "questionEndsAt (room w) = Some e" "e \<noteq> 0" "now \<le> e"
  then show "fst (on_submitAnswer qs now pid a w) \<noteq> Error TimeIsUp"
    by (simp add: on_submitAnswer_def Let_def split: option.splits score_value.splits)
qed

theorem submitAnswer_after_deadline_witness:
  "on_submitAnswer three_questions 65001 (JStr ''A'') (JNum 1) scenario_world =
     (Error TimeIsUp, scenario_world)
   \<and> on_submitAnswer three_questions 1000 (JStr ''A'') (JNum 1)
        (on_createRoom ''ABCD'' ''host'') = (Error TimeIsUp, on_createRoom ''ABCD'' ''host'')
   \<and> on_submitAnswer three_questions 65001 (JStr ''A'') (JNum 1)
        (finalizeQuestion three_questions 66000 (draw 0) scenario_world) =
          (Error TimeIsUp, finalizeQuestion three_questions 66000 (draw 0) scenario_world)
   \<and> fst (on_submitAnswer three_questions 65000 (JStr ''A'') (JNum 1) scenario_world) \<noteq>
        Error TimeIsUp"
proof -
  have e: "questionEndsAt (room scenario_world) = Some 65000"
    by code_simp
  have n: "questionEndsAt (room (on_createRoom ''ABCD'' ''host'')) = None"
    by code_simp
  from submitAnswer_after_deadline [of scenario_world 65000 65001 three_questions "JStr ''A''" "JNum 1"
      66000 "draw 0"]
    submitAnswer_after_deadline [of "on_createRoom ''ABCD'' ''host''" 0 1000 three_questions
      "JStr ''A''" "JNum 1" 0 "draw 0"]
    submitAnswer_after_deadline [of scenario_world 65000 65000 three_questions "JStr ''A''" "JNum 1"
      0 "draw 0"] e n
  show ?thesis by simp
qed

text \<open>
  At the deadline itself the claim of C2 fails: with the deadline at 65000, the answer
  that player \<open>A\<close> submits at 65000 is accepted and raises the score from 100 to 1000.
\<close>

theorem submitAnswer_at_deadline_accepted:
  "questionEndsAt (room scenario_world) = Some 65000
   \<and> fst (on_submitAnswer three_questions 65000 (JStr ''A'') (JNum 1) scenario_world) = Gained 900
   \<and> score (players (room scenario_world) ! 0) = 100
   \<and> score (players (room (snd (on_submitAnswer three_questions 65000 (JStr ''A'') (JNum 1)
         scenario_world))) ! 0) = 1000"
  by code_simp

section \<open>Joining again\<close>

text \<open>
  C10. When the \<^verbatim>\<open>playerId\<close> of a join request already has a player in the room, the
  request succeeds whatever name and avatar it carries (also an avatar that another
  player holds), the player's \<^verbatim>\<open>socketId\<close> becomes the new connection, and the name,
  avatar, score, \<^verbatim>\<open>stunnedUntil\<close>, answers and powers of every player are unchanged.
\<close>

theorem join_again_rebinds:
  "find_ref (\<lambda>p. playerId p = pid) (players (room w)) = Some i \<longrightarrow>
     fst (on_join sock nm av pid w) = Joined (code (room w)) pid
     \<and> players (room (snd (on_join sock nm av pid w))) =
         (players (room w))[i := (players (room w) ! i)\<lparr>socketId := sock\<rparr>]
     \<and> map (\<lambda>p. (playerId p, name p, avatarId p, score p, stunnedUntil p, answers p, powers p))
           (players (room (snd (on_join sock nm av pid w)))) =
         map (\<lambda>p. (playerId p, name p, avatarId p, score p, stunnedUntil p, answers p, powers p))
           (players (room w))
     \<and> socketId (players (room (snd (on_join sock nm av pid w))) ! i) = sock"
proof
  assume f: "find_ref (\<lambda>p. playerId p = pid) (players (room w)) = Some i"
  from find_ref_Some[OF f] have i: "i < length (players (room w))"
    and p: "playerId (players (room w) ! i) = pid" by simp_all
  have ps: "players (room (snd (on_join sock nm av pid w))) =
         (players (room w))[i := (players (room w) ! i)\<lparr>socketId := sock\<rparr>]"
    using f by (simp add: on_join_def Let_def broadcastRoom_def emit_def update_player_def)
  have a: "fst (on_join sock nm av pid w) = Joined (code (room w)) pid"
    using f i p by (simp add: on_join_def Let_def broadcastRoom_def emit_def update_player_def)
  have m: "map (\<lambda>p. (playerId p, name p, avatarId p, score p, stunnedUntil p, answers p, powers p))
           ((players (room w))[i := (\<lambda>p. p\<lparr>socketId := sock\<rparr>) (players (room w) ! i)]) =
         map (\<lambda>p. (playerId p, name p, avatarId p, score p, stunnedUntil p, answers p, powers p))
           (players (room w))"
    using i by (intro map_frame_update) simp_all
  show "fst (on_join sock nm av pid w) = Joined (code (room w)) pid
     \<and> players (room (snd (on_join sock nm av pid w))) =
         (players (room w))[i := (players (room w) ! i)\<lparr>socketId := sock\<rparr>]
     \<and> map (\<lambda>p. (playerId p, name p, avatarId p, score p, stunnedUntil p, answers p, powers p))
           (players (room (snd (on_join sock nm av pid w)))) =
         map (\<lambda>p. (playerId p, name p, avatarId p, score p, stunnedUntil p, answers p, powers p))
           (players (room w))
     \<and> socketId (players (room (snd (on_join sock nm av pid w))) ! i) = sock"
    using a ps m i by simp
qed

theorem join_again_rebinds_witness:
  "find_ref (\<lambda>p. playerId p = JStr ''A'') (players (room scenario_world)) = Some 0
   \<and> avatarId (players (room scenario_world) ! 1) = JStr ''dog''
   \<and> fst (on_join ''sA2'' (JStr ''Zed'') (JStr ''dog'') (JStr ''A'') scenario_world) =
       Joined (code (room scenario_world)) (JStr ''A'')
   \<and> map (\<lambda>p. (playerId p, name p, avatarId p, score p, stunnedUntil p, answers p, powers p))
           (players (room (snd (on_join ''sA2'' (JStr ''Zed'') (JStr ''dog'') (JStr ''A'') scenario_world)))) =
         map (\<lambda>p. (playerId p, name p, avatarId p, score p, stunnedUntil p, answers p, powers p))
           (players (room scenario_world))
   \<and> socketId (players (room (snd (on_join ''sA2'' (JStr ''Zed'') (JStr ''dog'') (JStr ''A'') scenario_world))) ! 0) = ''sA2''"
proof -
  have f: "find_ref (\<lambda>p. playerId p = JStr ''A'') (players (room scenario_world)) = Some 0"
    by code_simp
  have c: "avatarId (players (room scenario_world) ! 1) = JStr ''dog''"
    by code_simp
  from join_again_rebinds [of "JStr ''A''" scenario_world 0 "''sA2''" "JStr ''Zed''" "JStr ''dog''"] f c
  show ?thesis by blast
qed

section \<open>Answers\<close>

lemma find_ref_map: "find_ref (\<lambda>p. f p = v) xs = find_ref (\<lambda>x. x = v) (map f xs)"
  by (induction xs) auto



lemma room_broadcastRoom: "room (broadcastRoom w) = room w"
  by (simp add: broadcastRoom_def emit_def)


lemma property_of_out_of_range:
  "(k < 0 \<or> int n \<le> k \<longrightarrow> property_of n (JNum k) = Absent)
   \<and> property_of n JUndefined = Absent \<and> property_of n JNull = Absent
   \<and> property_of n (JBool b) = Absent"
  by simp




section \<open>The stun\<close>

lemma stunnedUntil_applyPower_STUN:
  "t < length (players rm) \<Longrightarrow>
   stunnedUntil (players (applyPower qs r rm (Some STUN) a t) ! t) = currentQuestionIndex rm + 1"
  by (simp add: applyPower_def update_player_def Let_def)

lemma submitAnswer_stunned:
  assumes "find_ref (\<lambda>p. playerId p = pid) (players (room w)) = Some i"
    and "questionEndsAt (room w) = Some e" "e \<noteq> 0" "now \<le> e"
    and "stunnedUntil (players (room w) ! i) > currentQuestionIndex (room w)"
  shows "on_submitAnswer qs now pid a w = (Error Stunned, w)"
  using assms by (simp add: on_submitAnswer_def Let_def)

lemma submitAnswer_not_stunned:
  assumes "find_ref (\<lambda>p. playerId p = pid) (players (room w)) = Some i"
    and "stunnedUntil (players (room w) ! i) \<le> currentQuestionIndex (room w)"
  shows "fst (on_submitAnswer qs now pid a w) \<noteq> Error Stunned"
  using assms
  by (simp add: on_submitAnswer_def Let_def split: option.splits score_value.splits)

text \<open>
  C1, as the code has it. Applying a \<^const>\<open>STUN\<close> power while question \<open>k\<close> is current sets
  the target's \<^verbatim>\<open>stunnedUntil\<close> to \<open>k + 1\<close> and leaves the question index at \<open>k\<close>. The handler
  refuses a player as stunned when \<^verbatim>\<open>player.stunnedUntil > qIndex\<close>, that is for the
  question indices below the watermark: the target's submission in time for the current
  question \<open>k\<close> is refused with \<^verbatim>\<open>You are stunned this question\<close>, and at question
  \<open>k + 1\<close> the target is not refused as stunned.
\<close>

theorem stun_blocks_current_question:
  "t < length (players (room w)) \<longrightarrow> rm' = applyPower qs r (room w) (Some STUN) a t \<longrightarrow>
     stunnedUntil (players rm' ! t) = currentQuestionIndex (room w) + 1
     \<and> currentQuestionIndex rm' = currentQuestionIndex (room w)
     \<and> (room w1 = rm' \<longrightarrow> questionEndsAt rm' = Some e \<longrightarrow> e \<noteq> 0 \<longrightarrow> now \<le> e \<longrightarrow>
          find_ref (\<lambda>p. playerId p = pid) (players rm') = Some t \<longrightarrow>
          on_submitAnswer qs now pid ans w1 = (Error Stunned, w1))
     \<and> (players (room w2) = players rm' \<longrightarrow>
          currentQuestionIndex (room w2) = currentQuestionIndex (room w) + 1 \<longrightarrow>
          find_ref (\<lambda>p. playerId p = pid) (players rm') = Some t \<longrightarrow>
          fst (on_submitAnswer qs now2 pid ans w2) \<noteq> Error Stunned)"
proof (intro impI conjI)
  assume t: "t < length (players (room w))" and rm': "rm' = applyPower qs r (room w) (Some STUN) a t"
  show s: "stunnedUntil (players rm' ! t) = currentQuestionIndex (room w) + 1"
    unfolding rm' using t by (rule stunnedUntil_applyPower_STUN)
  show c: "currentQuestionIndex rm' = currentQuestionIndex (room w)"
    by (simp add: rm' applyPower_def update_player_def Let_def)
  {
    assume "room w1 = rm'" "questionEndsAt rm' = Some e" "e \<noteq> 0" "now \<le> e"
      "find_ref (\<lambda>p. playerId p = pid) (players rm') = Some t"
    with s c show "on_submitAnswer qs now pid ans w1 = (Error Stunned, w1)"
      by (intro submitAnswer_stunned[where i = t and e = e]) simp_all
  }
  {
    assume "players (room w2) = players rm'"
      "currentQuestionIndex (room w2) = currentQuestionIndex (room w) + 1"
      "find_ref (\<lambda>p. playerId p = pid) (players rm') = Some t"
    with s show "fst (on_submitAnswer qs now2 pid ans w2) \<noteq> Error Stunned"
      by (intro submitAnswer_not_stunned[where i = t]) simp_all
  }
qed

theorem stun_blocks_current_question_witness:
  "stunnedUntil (players (applyPower three_questions 0 (room scenario_world) (Some STUN) 1 0) ! 0) =
     currentQuestionIndex (room scenario_world) + 1
   \<and> on_submitAnswer three_questions 40000 (JStr ''A'') (JNum 1)
        (scenario_world\<lparr>room := applyPower three_questions 0 (room scenario_world) (Some STUN) 1 0\<rparr>) =
       (Error Stunned,
        scenario_world\<lparr>room := applyPower three_questions 0 (room scenario_world) (Some STUN) 1 0\<rparr>)
   \<and> fst (on_submitAnswer three_questions 71000 (JStr ''A'') (JNum 1)
        (scenario_world\<lparr>room := (applyPower three_questions 0 (room scenario_world) (Some STUN) 1 0)
           \<lparr>currentQuestionIndex := 2, questionEndsAt := Some 100000\<rparr>\<rparr>)) \<noteq> Error Stunned"
proof -
  let ?rm = "applyPower three_questions 0 (room scenario_world) (Some STUN) 1 0"
  let ?w1 = "scenario_world\<lparr>room := ?rm\<rparr>"
  let ?w2 = "scenario_world\<lparr>room := ?rm\<lparr>currentQuestionIndex := 2, questionEndsAt := Some 100000\<rparr>\<rparr>"
  have h: "0 < length (players (room scenario_world))"
    "questionEndsAt ?rm = Some 65000"
    "find_ref (\<lambda>p. playerId p = JStr ''A'') (players ?rm) = Some 0"
    "currentQuestionIndex (room ?w2) = currentQuestionIndex (room scenario_world) + 1"
    by code_simp+
  have g: "room ?w1 = ?rm" "players (room ?w2) = players ?rm"
    by simp_all
  have n: "(65000::int) \<noteq> 0" "(40000::int) \<le> 65000"
    by simp_all
  from stun_blocks_current_question [of 0 scenario_world ?rm three_questions 0 1 ?w1 65000 40000
      "JStr ''A''" "JNum 1" ?w2 71000] h g n
  show ?thesis by blast
qed

text \<open>
  The claim of C1 fails at the following question. In the scenario, \<open>B\<close> stuns \<open>A\<close> while
  question 1 is current, which sets \<open>A\<close>'s \<^verbatim>\<open>stunnedUntil\<close> to 2; question 1 is finalized,
  question 2 starts, and the answer that \<open>A\<close> then submits is accepted.
\<close>

theorem stun_next_question_accepted:
  "run three_questions scenario_world [UsePower 0 (JStr ''B'') (JStr ''A'') (JNum 0)] =
     Some stun_world
   \<and> currentQuestionIndex (room scenario_world) = 1
   \<and> stunnedUntil (players (room stun_world) ! 0) = 2
   \<and> run three_questions stun_world [Fire 66000 (draw 0) 2, Fire 70000 (draw 0) 3] =
       Some third_question_world
   \<and> currentQuestionIndex (room third_question_world) = 2
   \<and> state (room third_question_world) = Question
   \<and> stunnedUntil (players (room third_question_world) ! 0) = 2
   \<and> fst (on_submitAnswer three_questions 71000 (JStr ''A'') (JNum 1) third_question_world) =
       Gained 2800"
  by code_simp

section \<open>What the operations leave unchanged\<close>

lemma run_preserves:
  assumes step: "\<And>a w w'. I w \<Longrightarrow> apply_action qs a w = Some w' \<Longrightarrow> I w'"
  shows "I w \<Longrightarrow> run qs w acts = Some w' \<Longrightarrow> I w'"
proof (induction acts arbitrary: w)
  case Nil
  then show ?case by simp
next
  case (Cons a acts)
  then obtain w1 where a: "apply_action qs a w = Some w1" and r: "run qs w1 acts = Some w'"
    by (auto split: option.splits)
  from step[OF Cons.prems(1) a] have "I w1" .
  from Cons.IH[OF this r] show ?case .
qed

lemma room_emit: "room (emit e w) = room w"
  by (simp add: emit_def)

lemma room_clearTimeout: "room (clearTimeout h w) = room w"
  by (simp add: clearTimeout_def)

lemma map_update_player:
  assumes "\<And>x. g (f x) = g x"
  shows "map g (players (update_player i f rm)) = map g (players rm)"
proof (cases "i < length (players rm)")
  case True
  then show ?thesis
    by (simp add: update_player_def map_frame_update assms)
next
  case False
  then have "(players rm)[i := f (players rm ! i)] = players rm"
    by (intro list_update_beyond) simp
  then show ?thesis
    by (simp add: update_player_def)
qed

lemma map_applyPower:
  assumes "\<And>s p. g (p\<lparr>score := s\<rparr>) = g p" "\<And>s p. g (p\<lparr>stunnedUntil := s\<rparr>) = g p"
  shows "map g (players (applyPower qs r rm ty a t)) = map g (players rm)"
proof (cases ty)
  case None
  then show ?thesis by (simp add: applyPower_def)
next
  case (Some pt)
  then show ?thesis
    by (cases pt) (simp_all add: applyPower_def Let_def map_update_player assms split: option.splits)
qed

lemma rest_update_player:
  "state (update_player i f rm) = state rm"
  "questionEndsAt (update_player i f rm) = questionEndsAt rm"
  "currentQuestionIndex (update_player i f rm) = currentQuestionIndex rm"
  "timer (update_player i f rm) = timer rm"
  "code (update_player i f rm) = code rm"
  by (simp_all add: update_player_def)

lemma rest_applyPower:
  "state (applyPower qs r rm ty a t) = state rm"
  "questionEndsAt (applyPower qs r rm ty a t) = questionEndsAt rm"
  "currentQuestionIndex (applyPower qs r rm ty a t) = currentQuestionIndex rm"
  "timer (applyPower qs r rm ty a t) = timer rm"
  by (simp_all add: applyPower_def Let_def rest_update_player split: option.splits power_type.splits)

lemma players_startQuestion: "players (room (startQuestion qs now w)) = players (room w)"
  by (simp add: startQuestion_def Let_def players_endGame room_emit setTimeout_def room_clearTimeout
      split: option.splits prod.splits)

lemma state_endGame: "state (room (endGame w)) = Ended"
  by (simp add: endGame_def Let_def room_emit room_clearTimeout split: option.splits)

lemma state_startQuestion: "state (room (startQuestion qs now w)) \<noteq> Lobby"
  by (simp add: startQuestion_def Let_def state_endGame room_emit setTimeout_def
      split: option.splits prod.splits)

lemma questionEndsAt_endGame: "questionEndsAt (room (endGame w)) = questionEndsAt (room w)"
  by (simp add: endGame_def Let_def room_emit room_clearTimeout split: option.splits)

lemma answers_awardAll: "map answers (awardAll (awardPower qs qi q) rnd k ps) = map answers ps"
  by (induction ps arbitrary: k) (auto simp: awardPower_def split: option.splits)

lemma answers_finalizeQuestion:
  "map answers (players (room (finalizeQuestion qs now rnd w))) = map answers (players (room w))"
  by (simp add: finalizeQuestion_def Let_def room_emit setTimeout_def answers_awardAll
      split: option.splits)

lemma players_nextRound: "players (room (nextRound qs now w)) = players (room w)"
  by (simp add: nextRound_def Let_def players_endGame players_startQuestion room_broadcastRoom)

lemma state_nextRound: "state (room (nextRound qs now w)) \<noteq> Lobby"
  by (simp add: nextRound_def Let_def state_endGame state_startQuestion room_broadcastRoom)

lemma state_finalizeQuestion:
  "state (room (finalizeQuestion qs now rnd w)) = Lobby \<Longrightarrow> state (room w) = Lobby"
  by (simp add: finalizeQuestion_def Let_def room_emit setTimeout_def split: option.splits)


lemma rest_on_join:
  "state (room (snd (on_join sock nm av pid w))) = state (room w)"
  "questionEndsAt (room (snd (on_join sock nm av pid w))) = questionEndsAt (room w)"
  by (simp_all add: on_join_def Let_def room_broadcastRoom rest_update_player split: option.splits)

lemma rest_on_submitAnswer:
  "state (room (snd (on_submitAnswer qs now pid a w))) = state (room w)"
  "questionEndsAt (room (snd (on_submitAnswer qs now pid a w))) = questionEndsAt (room w)"
  by (simp_all add: on_submitAnswer_def Let_def room_broadcastRoom rest_update_player
      split: option.splits score_value.splits)

lemma rest_on_usePower:
  "state (room (snd (on_usePower qs r pid tid k w))) = state (room w)"
  "questionEndsAt (room (snd (on_usePower qs r pid tid k w))) = questionEndsAt (room w)"
  by (simp_all add: on_usePower_def Let_def room_broadcastRoom room_emit rest_update_player
      rest_applyPower split: option.splits property.splits)

lemma state_on_startGame: "state (room (on_startGame qs now w)) \<noteq> Lobby"
  by (simp add: on_startGame_def Let_def room_broadcastRoom state_startQuestion)

lemma fire_cases:
  assumes "fire qs now rnd h w = Some w'"
  obtains w1 where "room w1 = room w" "w' = finalizeQuestion qs now rnd w1"
  | w1 where "room w1 = room w" "w' = nextRound qs now w1"
proof -
  let ?w1 = "w\<lparr>pending := filter (\<lambda>t. fst t \<noteq> h) (pending w)\<rparr>"
  have r: "room ?w1 = room w" by simp
  from assms obtain cb where
    w': "w' = (case cb of Finalize \<Rightarrow> finalizeQuestion qs now rnd ?w1
                        | NextRound \<Rightarrow> nextRound qs now ?w1)"
    by (auto simp: fire_def Let_def split: option.splits if_splits prod.splits)
  show thesis
  proof (cases cb)
    case Finalize
    with w' have "w' = finalizeQuestion qs now rnd ?w1" by simp
    with r show thesis by (rule that(1))
  next
    case NextRound
    with w' have "w' = nextRound qs now ?w1" by simp
    with r show thesis by (rule that(2))
  qed
qed

lemma lobby_step:
  assumes "state (room w) = Lobby \<longrightarrow> questionEndsAt (room w) = None"
    and "apply_action qs a w = Some w'"
  shows "state (room w') = Lobby \<longrightarrow> questionEndsAt (room w') = None"
proof (cases a)
  case (Join sock nm av pid)
  with assms show ?thesis by (auto simp: rest_on_join)
next
  case (StartGame now)
  with assms show ?thesis by (auto simp: state_on_startGame)
next
  case (SubmitAnswer now pid k)
  with assms(2) have "w' = snd (on_submitAnswer qs now pid k w)"
    by (auto split: prod.splits ack.splits)
  with assms(1) show ?thesis by (simp add: rest_on_submitAnswer)
next
  case (UsePower r pid tid k)
  with assms(2) have "w' = snd (on_usePower qs r pid tid k w)"
    by (auto split: prod.splits ack.splits)
  with assms(1) show ?thesis by (simp add: rest_on_usePower)
next
  case (Fire now rnd h)
  with assms(2) have "fire qs now rnd h w = Some w'" by simp
  then show ?thesis
  proof (cases rule: fire_cases)
    case (1 w1)
    with assms(1) state_finalizeQuestion[of qs now rnd w1] show ?thesis
      by (auto simp: questionEndsAt_finalizeQuestion)
  next
    case (2 w1)
    then show ?thesis by (simp add: state_nextRound)
  qed
qed

section \<open>The deadline outside the question phase\<close>

text \<open>
  C8, as the code has it. In every state a room reaches, \<^verbatim>\<open>questionEndsAt\<close> is null
  while the room is in the lobby. No operation clears it: \<^verbatim>\<open>finalizeQuestion\<close> and
  \<^verbatim>\<open>endGame\<close>, which move the room to the results and to the end of the game, leave the
  deadline of the last question in place.
\<close>

theorem deadline_kept_after_question:
  "(run qs (on_createRoom c sock) acts = Some w \<longrightarrow> state (room w) = Lobby \<longrightarrow>
      questionEndsAt (room w) = None)
   \<and> questionEndsAt (room (finalizeQuestion qs now rnd w')) = questionEndsAt (room w')
   \<and> questionEndsAt (room (endGame w')) = questionEndsAt (room w')"
proof (intro conjI impI)
  assume r: "run qs (on_createRoom c sock) acts = Some w" and l: "state (room w) = Lobby"
  have i: "state (room (on_createRoom c sock)) = Lobby \<longrightarrow>
           questionEndsAt (room (on_createRoom c sock)) = None"
    by (simp add: on_createRoom_def createRoom_def room_broadcastRoom)
  have "state (room w) = Lobby \<longrightarrow> questionEndsAt (room w) = None"
    by (rule run_preserves[where I = "\<lambda>w. state (room w) = Lobby \<longrightarrow> questionEndsAt (room w) = None",
          OF lobby_step i r])
  with l show "questionEndsAt (room w) = None" by simp
next
  show "questionEndsAt (room (finalizeQuestion qs now rnd w')) = questionEndsAt (room w')"
    by (rule questionEndsAt_finalizeQuestion)
  show "questionEndsAt (room (endGame w')) = questionEndsAt (room w')"
    by (rule questionEndsAt_endGame)
qed

theorem deadline_kept_after_question_witness:
  "run three_questions (on_createRoom ''ABCD'' ''host'')
     [Join ''sA'' (JStr ''Ann'') (JStr ''cat'') (JStr ''A'')] =
     Some (snd (on_join ''sA'' (JStr ''Ann'') (JStr ''cat'') (JStr ''A'') (on_createRoom ''ABCD'' ''host'')))
   \<and> state (room (snd (on_join ''sA'' (JStr ''Ann'') (JStr ''cat'') (JStr ''A'')
        (on_createRoom ''ABCD'' ''host'')))) = Lobby
   \<and> questionEndsAt (room (snd (on_join ''sA'' (JStr ''Ann'') (JStr ''cat'') (JStr ''A'')
        (on_createRoom ''ABCD'' ''host'')))) = None
   \<and> questionEndsAt (room (finalizeQuestion three_questions 66000 (draw 0) scenario_world)) =
       questionEndsAt (room scenario_world)
   \<and> questionEndsAt (room (endGame scenario_world)) = questionEndsAt (room scenario_world)"
proof -
  let ?w = "snd (on_join ''sA'' (JStr ''Ann'') (JStr ''cat'') (JStr ''A'') (on_createRoom ''ABCD'' ''host''))"
  have r: "run three_questions (on_createRoom ''ABCD'' ''host'')
     [Join ''sA'' (JStr ''Ann'') (JStr ''cat'') (JStr ''A'')] = Some ?w"
    by simp
  have l: "state (room ?w) = Lobby"
    by code_simp
  from deadline_kept_after_question [of three_questions "''ABCD''" "''host''"
      "[Join ''sA'' (JStr ''Ann'') (JStr ''cat'') (JStr ''A'')]" ?w 66000 "draw 0" scenario_world] r l
  show ?thesis by blast
qed

text \<open>
  The claim of C8 fails once a question has been finalized: the room is in the results
  phase with the deadline 30000 of its first question still set, and at the end of the
  game the deadline of the last question is still set.
\<close>

theorem deadline_not_cleared:
  "run three_questions (on_createRoom ''ABCD'' ''host'') [StartGame 0, Fire 31000 (draw 0) 0] =
     Some results_world
   \<and> state (room results_world) = Results
   \<and> questionEndsAt (room results_world) = Some 30000
   \<and> run three_questions third_question_world [Fire 101000 (draw 0) 4, Fire 105000 (draw 0) 5] =
       Some ended_world
   \<and> state (room ended_world) = Ended
   \<and> questionEndsAt (room ended_world) = Some 100000"
  by code_simp

section \<open>One answer per question\<close>

lemma answers_ok_frame:
  assumes "map playerId (players (room w')) = map playerId (players (room w))"
    and "map answers (players (room w')) = map answers (players (room w))"
    and "answers_ok w"
  shows "answers_ok w'"
proof -
  have "list_all (\<lambda>p. distinct (map questionIndex (answers p))) ps =
        list_all (\<lambda>as. distinct (map questionIndex as)) (map answers ps)" for ps :: "player list"
    by (simp add: list_all_iff)
  with assms show ?thesis
    by (simp add: answers_ok_def)
qed

lemma playerId_awardAll: "map playerId (awardAll (awardPower qs qi q) rnd k ps) = map playerId ps"
  by (induction ps arbitrary: k) (auto simp: awardPower_def split: option.splits)

lemma playerId_finalizeQuestion:
  "map playerId (players (room (finalizeQuestion qs now rnd w))) = map playerId (players (room w))"
  by (simp add: finalizeQuestion_def Let_def room_emit setTimeout_def playerId_awardAll
      split: option.splits)

lemma frame_on_usePower:
  assumes "\<And>s p. g (p\<lparr>score := s\<rparr>) = g p" "\<And>s p. g (p\<lparr>stunnedUntil := s\<rparr>) = g p"
    "\<And>s p. g (p\<lparr>powers := s\<rparr>) = g p"
  shows "map g (players (room (snd (on_usePower qs r pid tid k w)))) = map g (players (room w))"
  by (simp add: on_usePower_def Let_def room_broadcastRoom room_emit map_update_player
      map_applyPower assms split: option.splits property.splits)

lemma answers_ok_join: "answers_ok w \<Longrightarrow> answers_ok (snd (on_join sock nm av pid w))"
proof (cases "find_ref (\<lambda>p. playerId p = pid) (players (room w))")
  case None
  assume ok: "answers_ok w"
  from find_ref_None[OF None] have "pid \<notin> playerId ` set (players (room w))"
    by (auto simp: list_ex_iff)
  with ok show ?thesis
    using None by (auto simp: on_join_def Let_def room_broadcastRoom answers_ok_def)
next
  case (Some i)
  assume ok: "answers_ok w"
  show ?thesis
    by (rule answers_ok_frame[OF _ _ ok])
      (simp_all add: Some on_join_def Let_def room_broadcastRoom map_update_player)
qed

lemma answers_ok_startGame: "answers_ok w \<Longrightarrow> answers_ok (on_startGame qs now w)"
  by (simp add: on_startGame_def Let_def room_broadcastRoom players_startQuestion answers_ok_def
      list_all_iff comp_def)

lemma answers_ok_submitAnswer:
  assumes ok: "answers_ok w"
  shows "answers_ok (snd (on_submitAnswer qs now pid a w))"
proof (cases "fst (on_submitAnswer qs now pid a w)")
  case (Gained g)
  then obtain i where f: "find_ref (\<lambda>p. playerId p = pid) (players (room w)) = Some i"
    and n: "\<not> list_ex (\<lambda>a. questionIndex a = currentQuestionIndex (room w))
              (answers (players (room w) ! i))"
    and w': "snd (on_submitAnswer qs now pid a w) =
      broadcastRoom (room_update (update_player i (\<lambda>p.
        p\<lparr>answers := answers p @ [\<lparr> questionIndex = currentQuestionIndex (room w), answerIndex = a, gained = g \<rparr>],
          score := score p + g\<rparr>)) w)"
    by (auto simp: on_submitAnswer_def Let_def split: option.splits if_splits score_value.splits)
  let ?f = "\<lambda>p. p\<lparr>answers := answers p @ [\<lparr> questionIndex = currentQuestionIndex (room w), answerIndex = a, gained = g \<rparr>],
          score := score p + g\<rparr>"
  from find_ref_Some[OF f] have i: "i < length (players (room w))" by simp
  have ids: "map playerId (players (room (snd (on_submitAnswer qs now pid a w)))) = map playerId (players (room w))"
    by (simp add: w' room_broadcastRoom map_update_player)
  have d: "distinct (map questionIndex (answers (?f (players (room w) ! i))))"
    using ok i n by (auto simp: answers_ok_def list_all_iff list_ex_iff)
  have "\<forall>p \<in> set ((players (room w))[i := ?f (players (room w) ! i)]).
          distinct (map questionIndex (answers p))"
  proof
    fix p assume "p \<in> set ((players (room w))[i := ?f (players (room w) ! i)])"
    then have "p = ?f (players (room w) ! i) \<or> p \<in> set (players (room w))"
      using set_update_subset_insert[of "players (room w)" i "?f (players (room w) ! i)"] by auto
    with d ok show "distinct (map questionIndex (answers p))"
      by (auto simp: answers_ok_def list_all_iff)
  qed
  with ids ok show ?thesis
    by (simp add: answers_ok_def list_all_iff w' room_broadcastRoom update_player_def)
next
  case (Error e)
  then have "snd (on_submitAnswer qs now pid a w) = w"
    by (auto simp: on_submitAnswer_def Let_def split: option.splits if_splits score_value.splits)
  with ok show ?thesis by simp
next
  case Unmodelled
  then have "snd (on_submitAnswer qs now pid a w) = w"
    by (auto simp: on_submitAnswer_def Let_def split: option.splits if_splits score_value.splits)
  with ok show ?thesis by simp
next
  case (Joined c p)
  then show ?thesis
    by (auto simp: on_submitAnswer_def Let_def split: option.splits if_splits score_value.splits)
next
  case PowerOk
  then show ?thesis
    by (auto simp: on_submitAnswer_def Let_def split: option.splits if_splits score_value.splits)
qed

lemma answers_ok_step:
  assumes "answers_ok w" and "apply_action qs a w = Some w'"
  shows "answers_ok w'"
proof (cases a)
  case (Join sock nm av pid)
  with assms show ?thesis by (auto simp: answers_ok_join)
next
  case (StartGame now)
  with assms show ?thesis by (auto simp: answers_ok_startGame)
next
  case (SubmitAnswer now pid k)
  with assms(2) have "w' = snd (on_submitAnswer qs now pid k w)"
    by (auto split: prod.splits ack.splits)
  with assms(1) show ?thesis by (simp add: answers_ok_submitAnswer)
next
  case (UsePower r pid tid k)
  with assms(2) have "w' = snd (on_usePower qs r pid tid k w)"
    by (auto split: prod.splits ack.splits)
  then show ?thesis
    by (intro answers_ok_frame[OF _ _ assms(1)]) (simp_all add: frame_on_usePower)
next
  case (Fire now rnd h)
  with assms(2) have "fire qs now rnd h w = Some w'" by simp
  then show ?thesis
  proof (cases rule: fire_cases)
    case (1 w1)
    then show ?thesis
      by (intro answers_ok_frame[OF _ _ assms(1)])
        (simp_all add: answers_finalizeQuestion playerId_finalizeQuestion)
  next
    case (2 w1)
    then show ?thesis
      by (intro answers_ok_frame[OF _ _ assms(1)]) (simp_all add: players_nextRound)
  qed
qed

lemma answers_ok_createRoom: "answers_ok (on_createRoom c sock)"
  by (simp add: answers_ok_def on_createRoom_def createRoom_def room_broadcastRoom)

lemma submitAnswer_repeat_stunned:
  assumes f: "find_ref (\<lambda>p. playerId p = pid) (players (room w)) = Some i"
    and a: "list_ex (\<lambda>a. questionIndex a = currentQuestionIndex (room w)) (answers (players (room w) ! i))"
  shows "snd (on_submitAnswer qs now pid b w) = w
    \<and> (\<exists>err. fst (on_submitAnswer qs now pid b w) = Error err)"
  using assms by (simp add: on_submitAnswer_def Let_def split: option.splits)

lemma submitAnswer_repeat_conflict:
  assumes "find_ref (\<lambda>p. playerId p = pid) (players (room w)) = Some i"
    and "list_ex (\<lambda>a. questionIndex a = currentQuestionIndex (room w)) (answers (players (room w) ! i))"
    and "questionEndsAt (room w) = Some e" "e \<noteq> 0" "now \<le> e"
    and "stunnedUntil (players (room w) ! i) \<le> currentQuestionIndex (room w)"
  shows "on_submitAnswer qs now pid b w = (Error AlreadyAnswered, w)"
  using assms by (simp add: on_submitAnswer_def Let_def)

text \<open>
  C6. In every state a room reaches, each player holds at most one answer per question
  index (and the players have different identifiers). A submission by a player who
  already holds an answer for the current question index is always refused and leaves
  the room, so the score and the stored answer, as it was; when it arrives in time and
  the player is not stunned, the error is \<^verbatim>\<open>Already answered\<close>.
\<close>

theorem one_answer_per_question:
  "(run qs (on_createRoom c sock) acts = Some w \<longrightarrow>
      distinct (map playerId (players (room w)))
      \<and> list_all (\<lambda>p. distinct (map questionIndex (answers p))) (players (room w)))
   \<and> (find_ref (\<lambda>p. playerId p = pid) (players (room w')) = Some i \<longrightarrow>
       list_ex (\<lambda>a. questionIndex a = currentQuestionIndex (room w'))
         (answers (players (room w') ! i)) \<longrightarrow>
         snd (on_submitAnswer qs now pid b w') = w'
         \<and> (\<exists>err. fst (on_submitAnswer qs now pid b w') = Error err)
         \<and> (questionEndsAt (room w') = Some e \<longrightarrow> e \<noteq> 0 \<longrightarrow> now \<le> e \<longrightarrow>
              stunnedUntil (players (room w') ! i) \<le> currentQuestionIndex (room w') \<longrightarrow>
              fst (on_submitAnswer qs now pid b w') = Error AlreadyAnswered))"
proof (intro conjI impI)
  assume r: "run qs (on_createRoom c sock) acts = Some w"
  have "answers_ok w"
    by (rule run_preserves[where I = answers_ok, OF answers_ok_step answers_ok_createRoom r])
  then show "distinct (map playerId (players (room w)))"
    and "list_all (\<lambda>p. distinct (map questionIndex (answers p))) (players (room w))"
    by (simp_all add: answers_ok_def)
next
  assume f: "find_ref (\<lambda>p. playerId p = pid) (players (room w')) = Some i"
    and a: "list_ex (\<lambda>a. questionIndex a = currentQuestionIndex (room w'))
         (answers (players (room w') ! i))"
  from submitAnswer_repeat_stunned[OF f a, of qs now b]
  show "snd (on_submitAnswer qs now pid b w') = w'"
    and "\<exists>err. fst (on_submitAnswer qs now pid b w') = Error err"
    by simp_all
  assume "questionEndsAt (room w') = Some e" "e \<noteq> 0" "now \<le> e"
    "stunnedUntil (players (room w') ! i) \<le> currentQuestionIndex (room w')"
  from submitAnswer_repeat_conflict[OF f a this, of qs b]
  show "fst (on_submitAnswer qs now pid b w') = Error AlreadyAnswered"
    by simp
qed

theorem one_answer_per_question_witness:
  "distinct (map playerId (players (room scenario_world)))
   \<and> list_all (\<lambda>p. distinct (map questionIndex (answers p))) (players (room scenario_world))
   \<and> snd (on_submitAnswer three_questions 41000 (JStr ''A'') (JNum 1)
        (snd (on_submitAnswer three_questions 40000 (JStr ''A'') (JNum 0) scenario_world))) =
       snd (on_submitAnswer three_questions 40000 (JStr ''A'') (JNum 0) scenario_world)
   \<and> fst (on_submitAnswer three_questions 41000 (JStr ''A'') (JNum 1)
        (snd (on_submitAnswer three_questions 40000 (JStr ''A'') (JNum 0) scenario_world))) =
       Error AlreadyAnswered"
proof -
  let ?w = "snd (on_submitAnswer three_questions 40000 (JStr ''A'') (JNum 0) scenario_world)"
  have r: "run three_questions (on_createRoom ''ABCD'' ''host'') scenario_actions = Some scenario_world"
    by code_simp
  have h: "find_ref (\<lambda>p. playerId p = JStr ''A'') (players (room ?w)) = Some 0"
    "list_ex (\<lambda>a. questionIndex a = currentQuestionIndex (room ?w)) (answers (players (room ?w) ! 0))"
    "questionEndsAt (room ?w) = Some 65000"
    "stunnedUntil (players (room ?w) ! 0) \<le> currentQuestionIndex (room ?w)"
    by code_simp+
  have n: "(65000::int) \<noteq> 0" "(41000::int) \<le> 65000"
    by simp_all
  from one_answer_per_question [of three_questions "''ABCD''" "''host''" scenario_actions
      scenario_world "JStr ''A''" ?w 0 41000 "JNum 1" 65000] r h n
  show ?thesis by blast
qed

section \<open>Activating a power\<close>

text \<open>
  For a key that names a slot of the actor's powers the handler does what C7 says: it
  succeeds exactly when the slot is unused, marks it used, emits one \<^verbatim>\<open>room:power:used\<close>
  event followed by the room update, and refuses every later activation of that slot,
  leaving the room as it was.
\<close>

lemma property_of_Index: "property_of n k = Index i \<Longrightarrow> i < n"
  by (cases k) (auto split: if_splits option.splits)

lemma usePower_ok_cases:
  assumes "fst (on_usePower qs r pid tid k w) = PowerOk"
  obtains a i where "find_ref (\<lambda>p. playerId p = pid) (players (room w)) = Some a"
      "property_of (length (powers (players (room w) ! a))) k = Index i"
      "i < length (powers (players (room w) ! a))"
      "\<not> used (powers (players (room w) ! a) ! i)"
  | a where "find_ref (\<lambda>p. playerId p = pid) (players (room w)) = Some a"
      "property_of (length (powers (players (room w) ! a))) k = Length"
      "powers (players (room w) ! a) \<noteq> []"
proof -
  from assms obtain a where a: "find_ref (\<lambda>p. playerId p = pid) (players (room w)) = Some a"
    by (auto simp: on_usePower_def split: option.splits)
  show thesis
  proof (cases "property_of (length (powers (players (room w) ! a))) k")
    case Absent
    with assms a show ?thesis by (simp add: on_usePower_def Let_def)
  next
    case (Index i)
    with assms a have "\<not> used (powers (players (room w) ! a) ! i)"
      by (auto simp: on_usePower_def Let_def split: if_splits)
    with a Index property_of_Index[OF Index] show ?thesis by (rule that(1))
  next
    case Length
    with assms a have "powers (players (room w) ! a) \<noteq> []"
      by (auto simp: on_usePower_def Let_def split: if_splits)
    with a Length show ?thesis by (rule that(2))
  next
    case Prototype
    with assms a show ?thesis by (simp add: on_usePower_def Let_def)
  next
    case Inherited
    with assms a show ?thesis by (simp add: on_usePower_def Let_def)
  qed
qed

lemma usePower_slot_used:
  assumes "find_ref (\<lambda>p. playerId p = pid) (players (room w)) = Some a"
    and "property_of (length (powers (players (room w) ! a))) k = Index i"
    and "used (powers (players (room w) ! a) ! i)"
  shows "on_usePower qs r pid tid k w = (Error PowerNotAvailable, w)"
  using assms by (simp add: on_usePower_def Let_def)

lemma length_players_applyPower: "length (players (applyPower qs r rm ty a t)) = length (players rm)"
proof -
  have "map playerId (players (applyPower qs r rm ty a t)) = map playerId (players rm)"
    by (rule map_applyPower) simp_all
  then have "length (map playerId (players (applyPower qs r rm ty a t))) =
             length (map playerId (players rm))"
    by (rule arg_cong)
  then show ?thesis by simp
qed


lemma usePower_slot_fresh:
  assumes f: "find_ref (\<lambda>p. playerId p = pid) (players (room w)) = Some a"
    and k: "property_of (length (powers (players (room w) ! a))) k = Index i"
    and u: "\<not> used (powers (players (room w) ! a) ! i)"
    and w': "w' = snd (on_usePower qs r pid tid k w)"
  shows "fst (on_usePower qs r pid tid k w) = PowerOk"
    and "\<exists>ty act tgt ps upd. outbox w' = outbox w @ [PowerUsed ty act tgt ps, upd]"
    and "powers (players (room w') ! a) =
           (powers (players (room w) ! a))[i := (powers (players (room w) ! a) ! i)\<lparr>used := True\<rparr>]"
    and "on_usePower qs r' pid tid' k w' = (Error PowerNotAvailable, w')"
proof -
  let ?t = "case find_ref (\<lambda>p. playerId p = tid) (players (room w)) of None \<Rightarrow> a | Some t \<Rightarrow> t"
  let ?ty = "ptype (powers (players (room w) ! a) ! i)"
  let ?rm1 = "applyPower qs r (room w) (Some ?ty) a ?t"
  let ?mark = "\<lambda>p. p\<lparr>powers := (powers p)[i := (powers p ! i)\<lparr>used := True\<rparr>]\<rparr>"
  let ?rm2 = "update_player a ?mark ?rm1"
  from find_ref_Some[OF f] have a: "a < length (players (room w))" by simp
  from property_of_Index[OF k] have i: "i < length (powers (players (room w) ! a))" .
  have r: "on_usePower qs r pid tid k w =
      (PowerOk, broadcastRoom (emit (power_used_event (Some ?ty) a ?t ?rm2)
         (room_update (update_player a ?mark)
            (room_update (\<lambda>rm. applyPower qs r rm (Some ?ty) a ?t) w))))"
    using f k u by (simp add: on_usePower_def Let_def)
  show "fst (on_usePower qs r pid tid k w) = PowerOk"
    by (simp add: r)
  show "\<exists>ty act tgt ps upd. outbox w' = outbox w @ [PowerUsed ty act tgt ps, upd]"
    by (simp add: w' r broadcastRoom_def emit_def power_used_event_def)
  have rm: "room w' = ?rm2"
    by (simp add: w' r room_broadcastRoom room_emit)
  have l1: "length (players ?rm1) = length (players (room w))"
    by (rule length_players_applyPower)
  have "map powers (players ?rm1) = map powers (players (room w))"
    by (rule map_applyPower) simp_all
  then have "map powers (players ?rm1) ! a = map powers (players (room w)) ! a"
    by simp
  with a l1 have p1: "powers (players ?rm1 ! a) = powers (players (room w) ! a)"
    by simp
  show p2: "powers (players (room w') ! a) =
           (powers (players (room w) ! a))[i := (powers (players (room w) ! a) ! i)\<lparr>used := True\<rparr>]"
    using a l1 p1 by (simp add: rm update_player_def)
  have "map playerId (players (room w')) = map playerId (players (room w))"
    unfolding w' by (rule frame_on_usePower) simp_all
  with f have f': "find_ref (\<lambda>p. playerId p = pid) (players (room w')) = Some a"
    by (simp add: find_ref_map[of playerId])
  have k': "property_of (length (powers (players (room w') ! a))) k = Index i"
    using k by (simp add: p2)
  have u': "used (powers (players (room w') ! a) ! i)"
    using i by (simp add: p2)
  show "on_usePower qs r' pid tid' k w' = (Error PowerNotAvailable, w')"
    by (rule usePower_slot_used[OF f' k' u'])
qed

lemma property_of_length: "property_of n (JStr ''length'') = Length"
  by (simp add: canonical_index_def is_digit_def)

lemma usePower_length_key:
  assumes "find_ref (\<lambda>p. playerId p = pid) (players (room w)) = Some a"
    and "powers (players (room w) ! a) \<noteq> []"
  shows "fst (on_usePower qs r pid tid (JStr ''length'') w) = PowerOk"
    and "room (snd (on_usePower qs r pid tid (JStr ''length'') w)) = room w"
    and "\<exists>act tgt ps upd. outbox (snd (on_usePower qs r pid tid (JStr ''length'') w)) =
           outbox w @ [PowerUsed None act tgt ps, upd]"
  using assms
  by (simp_all add: on_usePower_def Let_def property_of_length applyPower_def room_broadcastRoom
      room_emit broadcastRoom_def emit_def power_used_event_def del: property_of.simps)

text \<open>
  C7 says that \<^verbatim>\<open>usePower\<close> succeeds only when the actor exists and the power slot it
  refers to exists and is unused, that a success marks the power used and emits exactly
  one power-used event, and that a second activation of a slot fails and changes no
  score. The guard \<^verbatim>\<open>if (!power || power.used)\<close> misses the key \<^verbatim>\<open>"length"\<close>: it reads the
  number of powers, which is truthy and has no \<^verbatim>\<open>used\<close>. In the scenario \<open>B\<close> uses the one
  power it holds; a second activation of slot 0 is refused, but the request with
  \<^verbatim>\<open>powerIndex\<close> \<^verbatim>\<open>"length"\<close> succeeds, refers to no slot, marks nothing, changes nothing in
  the room and emits a power-used event with no power type.
\<close>

theorem usePower_length_key_scenario:
  "run three_questions scenario_world [UsePower 0 (JStr ''B'') (JStr ''A'') (JNum 0)] =
     Some stun_world
   \<and> powers (players (room stun_world) ! 1) = [\<lparr> ptype = STUN, used = True \<rparr>]
   \<and> on_usePower three_questions 0 (JStr ''B'') (JStr ''A'') (JNum 0) stun_world =
       (Error PowerNotAvailable, stun_world)
   \<and> fst (on_usePower three_questions 0 (JStr ''B'') (JStr ''A'') (JStr ''length'') stun_world) =
       PowerOk
   \<and> room (snd (on_usePower three_questions 0 (JStr ''B'') (JStr ''A'') (JStr ''length'')
        stun_world)) = room stun_world
   \<and> length (outbox (snd (on_usePower three_questions 0 (JStr ''B'') (JStr ''A'')
        (JStr ''length'') stun_world))) = length (outbox stun_world) + 2
   \<and> last (butlast (outbox (snd (on_usePower three_questions 0 (JStr ''B'') (JStr ''A'')
        (JStr ''length'') stun_world)))) =
       PowerUsed None (JStr ''B'', JStr ''Bob'') (JStr ''A'', JStr ''Ann'')
         [(JStr ''A'', JStr ''Ann'', 100, 2), (JStr ''B'', JStr ''Bob'', 500, - 1),
          (JStr ''C'', JStr ''Cy'', 100, - 1)]"
  by code_simp

section \<open>The timers of a room\<close>

text \<open>
  \<^verbatim>\<open>startQuestion\<close> and \<^verbatim>\<open>endGame\<close> cancel the timer whose handle is in \<^verbatim>\<open>room.timer\<close>.
  \<^verbatim>\<open>finalizeQuestion\<close> leaves \<^verbatim>\<open>room.timer\<close> null: the handle of the delay it schedules
  is not kept, so nothing can cancel that delay.
\<close>

lemma startQuestion_cancels:
  assumes "timer (room w) = Some h" "h < fresh w"
  shows "h \<notin> fst ` set (pending (startQuestion qs now w))"
  using assms
  by (auto simp: startQuestion_def endGame_def Let_def setTimeout_def clearTimeout_def emit_def
      split: option.splits)

lemma endGame_cancels:
  assumes "timer (room w) = Some h"
  shows "h \<notin> fst ` set (pending (endGame w))"
  using assms
  by (auto simp: endGame_def Let_def clearTimeout_def emit_def split: option.splits)

lemma finalizeQuestion_keeps_no_handle:
  "timer (room (finalizeQuestion qs now rnd w)) = None"
  by (simp add: finalizeQuestion_def Let_def setTimeout_def emit_def split: option.splits)

text \<open>
  C3 says that a room never has two pending timers and that whatever schedules a timer
  cancels the pending one first. The delay between rounds escapes this. The host starts
  the game at 0, the first question is finalized at 31000, and the host starts the game
  again at 32000, during the results: \<^verbatim>\<open>startQuestion\<close> finds \<^verbatim>\<open>room.timer\<close> null and
  schedules the new deadline while the delay of the old round is still pending. When
  that delay fires at 35000 it moves the room to question 1, although question 0 of the
  new game is open until 62000.
\<close>

theorem restart_leaves_two_timers:
  "run three_questions (on_createRoom ''ABCD'' ''host'') [StartGame 0, Fire 31000 (draw 0) 0] =
     Some results_world
   \<and> pending results_world = [(1, 35000, NextRound)]
   \<and> timer (room results_world) = None
   \<and> run three_questions results_world [StartGame 32000] = Some restarted_world
   \<and> pending restarted_world = [(1, 35000, NextRound), (2, 63000, Finalize)]
   \<and> timer (room restarted_world) = Some 2
   \<and> state (room restarted_world) = Question
   \<and> currentQuestionIndex (room restarted_world) = 0
   \<and> questionEndsAt (room restarted_world) = Some 62000
   \<and> run three_questions restarted_world [Fire 35000 (draw 0) 1] = Some skipped_world
   \<and> pending skipped_world = [(3, 66000, Finalize)]
   \<and> currentQuestionIndex (room skipped_world) = 1
   \<and> questionEndsAt (room skipped_world) = Some 65000"
  by code_simp

end
